theory Spec2Isabelle
  imports Complex_Main "HOL-Library.AList"
begin

section \<open>Data model\<close>

text \<open>
  Shallow embedding of the orchestration loop (\<^verbatim>\<open>engine/engine.py\<close>) and of the momentum
  scalper (\<^verbatim>\<open>strategies/strategy_d.py\<close>).

  Python floats are modelled as \<^typ>\<open>real\<close>; a NaN produced by an indicator is the value
  \<open>None\<close> of a \<^typ>\<open>real option\<close>, and the stop and the target that the loop takes from
  a signal and hands on are floats that may be NaN (the type \<open>pyfloat\<close>). Timestamps are
  integers. Every exception that the source
  can raise is a value of the type \<open>error\<close>; a collaborator of the engine (data feed,
  risk manager, order manager, event bus, storage) is represented by the answer it gives,
  which is either an error or a value.
\<close>

datatype error =
    KeyError string
  | IndexError
  | TypeError
  | CollaboratorError string

type_synonym 'a result = "error + 'a"

definition then_res :: "'a result \<Rightarrow> ('a \<Rightarrow> 'b result) \<Rightarrow> 'b result" where
  "then_res r f = (case r of Inl e \<Rightarrow> Inl e | Inr v \<Rightarrow> f v)"

type_synonym timestamp = int

text \<open>One row of a candle DataFrame: the index entry and the OHLCV values.\<close>

record candle =
  time :: timestamp
  open_price :: real
  high :: real
  low :: real
  close :: real
  volume :: real

text \<open>
  A pandas DataFrame of candles: its rows in index order and the names of the columns it
  carries. \<^verbatim>\<open>len(df)\<close> is the number of rows, \<^verbatim>\<open>df.empty\<close> holds when an axis has
  length zero, \<^verbatim>\<open>df[name]\<close> raises KeyError for a column that is not there.
\<close>

record dataframe =
  rows :: "candle list"
  columns :: "string list"

definition len_df :: "dataframe \<Rightarrow> int" where
  "len_df df = int (length (rows df))"

definition empty_df :: "dataframe \<Rightarrow> bool" where
  "empty_df df = (rows df = [] \<or> columns df = [])"

definition column :: "dataframe \<Rightarrow> string \<Rightarrow> (candle \<Rightarrow> real) \<Rightarrow> real list result" where
  "column df name sel =
     (if name \<in> set (columns df) then Inr (map sel (rows df)) else Inl (KeyError name))"

text \<open>\<^verbatim>\<open>series.iloc[-1]\<close>: the last element, IndexError on an empty series.\<close>

definition iloc_last :: "'a list \<Rightarrow> 'a result" where
  "iloc_last xs = (if xs = [] then Inl IndexError else Inr (last xs))"

datatype direction = BUY | SELL

text \<open>
  A Python float that may be NaN. Every comparison with NaN is false, and arithmetic on
  NaN gives NaN.
\<close>

datatype pyfloat = Val real | NaN

text \<open>\<^verbatim>\<open>x <= 0\<close>\<close>

definition le_zero :: "pyfloat \<Rightarrow> bool" where
  "le_zero x = (case x of Val v \<Rightarrow> v \<le> 0 | NaN \<Rightarrow> False)"

text \<open>\<^verbatim>\<open>abs(a - x)\<close> for a number \<open>a\<close>\<close>

definition abs_diff :: "real \<Rightarrow> pyfloat \<Rightarrow> pyfloat" where
  "abs_diff a x = (case x of Val v \<Rightarrow> Val \<bar>a - v\<bar> | NaN \<Rightarrow> NaN)"

section \<open>The orchestration loop: candle-change detection\<close>

type_synonym symbol = string
type_synonym timeframe = string

text \<open>
  A value of \<^verbatim>\<open>_open_trades\<close>: the dict with the keys \<^verbatim>\<open>trade_id\<close>,
  \<^verbatim>\<open>strategy_code\<close>, \<^verbatim>\<open>symbol\<close> and \<^verbatim>\<open>direction\<close>.
\<close>

record trade_info =
  trade_id :: nat
  ti_strategy_code :: string
  ti_symbol :: symbol
  ti_direction :: direction

text \<open>
  The two mutable attributes of \<^verbatim>\<open>TradingEngine\<close> that the loop updates:
  \<^verbatim>\<open>_last_candle_time\<close>, a dict from (symbol, timeframe) to the last candle time, and
  \<^verbatim>\<open>_open_trades\<close>, a dict from ticket to trade data. The second is iterated in insertion
  order by the reconciliation, so it is an association list.
\<close>

record engine_state =
  last_candle_time :: "(symbol \<times> timeframe) \<rightharpoonup> timestamp"
  open_trades :: "(int \<times> trade_info) list"

text \<open>
  Lines 563 to 583 of \<^verbatim>\<open>_main_loop\<close> for one timeframe: the answer of
  \<^verbatim>\<open>get_candles(symbol, tf, count=200)\<close> is the argument \<open>fetched\<close>. The result is the
  flag stored in \<^verbatim>\<open>new_candle_for_tf[tf]\<close> and the engine state after the step.
\<close>

definition detect_new_candle ::
  "engine_state \<Rightarrow> symbol \<times> timeframe \<Rightarrow> dataframe result \<Rightarrow> bool \<times> engine_state" where
  "detect_new_candle st candle_key fetched =
     (case fetched of
        Inl e \<Rightarrow> (False, st)
      | Inr candles_tf \<Rightarrow>
          if \<not> empty_df candles_tf \<and> len_df candles_tf \<ge> 2 then
            (let latest_candle_time = time (last (rows candles_tf));
                 prev_time = last_candle_time st candle_key;
                 new_candle =
                   (case prev_time of
                      None \<Rightarrow> True
                    | Some p \<Rightarrow> if latest_candle_time > p then True else False)
             in (new_candle,
                 st\<lparr>last_candle_time := (last_candle_time st)(candle_key \<mapsto> latest_candle_time)\<rparr>))
          else (False, st))"

text \<open>The same step over consecutive cycles, for one key: the state after the last cycle.\<close>

fun detect_cycles ::
  "engine_state \<Rightarrow> symbol \<times> timeframe \<Rightarrow> dataframe result list \<Rightarrow> engine_state" where
  "detect_cycles st candle_key [] = st"
| "detect_cycles st candle_key (fetched # rest) =
     detect_cycles (snd (detect_new_candle st candle_key fetched)) candle_key rest"

text \<open>
  The timestamp a fetch contributes to the cursor: the index of the last row when the
  series passes the guard of line 567, nothing otherwise.
\<close>

definition usable_latest :: "dataframe result \<Rightarrow> timestamp option" where
  "usable_latest fetched =
     (case fetched of
        Inl e \<Rightarrow> None
      | Inr df \<Rightarrow> if \<not> empty_df df \<and> len_df df \<ge> 2 then Some (time (last (rows df))) else None)"

definition mk_candle :: "timestamp \<Rightarrow> real \<Rightarrow> real \<Rightarrow> real \<Rightarrow> real \<Rightarrow> candle" where
  "mk_candle t op hi lo cl = \<lparr>time = t, open_price = op, high = hi, low = lo, close = cl, volume = 0\<rparr>"

definition ohlcv :: "string list" where
  "ohlcv = [''open'', ''high'', ''low'', ''close'', ''volume'']"

definition flat_frame :: "timestamp list \<Rightarrow> dataframe" where
  "flat_frame ts = \<lparr>rows = map (\<lambda>t. mk_candle t 1 1 1 1) ts, columns = ohlcv\<rparr>"

definition initial_state :: engine_state where
  "initial_state = \<lparr>last_candle_time = Map.empty, open_trades = []\<rparr>"

section \<open>The orchestration loop: from a signal to an order\<close>

record symbol_config =
  lot_size :: real
  sl_atr_mult :: real
  tp_atr_mult :: real

definition SYMBOL_CONFIGS :: "(symbol \<times> symbol_config) list" where
  "SYMBOL_CONFIGS =
     [(''EURUSD'', \<lparr>lot_size = 0.02, sl_atr_mult = 1.5, tp_atr_mult = 2.0\<rparr>),
      (''GBPUSD'', \<lparr>lot_size = 0.01, sl_atr_mult = 1.5, tp_atr_mult = 2.0\<rparr>),
      (''USDJPY'', \<lparr>lot_size = 0.01, sl_atr_mult = 1.5, tp_atr_mult = 2.0\<rparr>),
      (''XAUUSD'', \<lparr>lot_size = 0.01, sl_atr_mult = 2.0, tp_atr_mult = 2.5\<rparr>)]"

text \<open>\<^verbatim>\<open>SYMBOL_CONFIGS.get(symbol, SYMBOL_CONFIGS["EURUSD"])\<close>\<close>

definition sym_cfg_of :: "symbol \<Rightarrow> symbol_config" where
  "sym_cfg_of symbol =
     (case map_of SYMBOL_CONFIGS symbol of
        Some c \<Rightarrow> c
      | None \<Rightarrow> \<lparr>lot_size = 0.02, sl_atr_mult = 1.5, tp_atr_mult = 2.0\<rparr>)"

text \<open>
  The signal as the loop reads it after \<^verbatim>\<open>strategy.run_cycle(symbol)\<close>: the attributes
  \<^verbatim>\<open>direction\<close>, \<^verbatim>\<open>entry_price\<close>, \<^verbatim>\<open>stop_loss\<close>, \<^verbatim>\<open>take_profit\<close> and
  \<^verbatim>\<open>symbol\<close>. A stop or a target that is \<^verbatim>\<open>None\<close> is the value \<open>None\<close>;
  one that is there is a float, NaN included. The entry price and the ATR of the cycle are
  taken as numbers.
\<close>

record signal =
  sig_direction :: direction
  entry_price :: real
  stop_loss :: "pyfloat option"
  take_profit :: "pyfloat option"
  sig_symbol :: symbol

record risk_check_result =
  approved :: bool
  rc_reason :: string
  position_size :: real
  risk_score :: real

text \<open>
  The dict returned by \<^verbatim>\<open>open_position\<close>, read with \<^verbatim>\<open>.get('ticket')\<close> and
  \<^verbatim>\<open>.get('price')\<close>: a key that is absent reads as \<open>None\<close>.
\<close>

record order_result =
  ticket :: "int option"
  price :: "real option"

datatype event_data =
    TradeRejected string symbol string
  | TradeOpened string symbol direction real "real option" pyfloat pyfloat "int option"
  | StrategyError string symbol error

text \<open>
  The calls that the loop makes to its collaborators, in the order in which it makes them.
  \<open>ClosureBegin\<close> is not a call: it marks the start of the processing of one closed ticket
  and holds the tickets that \<^verbatim>\<open>_open_trades\<close> contains at that moment.
\<close>

datatype call =
    PreTradeCheck symbol direction pyfloat
  | Publish string event_data
  | OpenPosition symbol direction real pyfloat pyfloat string
  | BrainTradeOpened string symbol direction real "real option" "int option"
  | CreateTrade symbol direction real real pyfloat pyfloat string
  | GetOpenPositions
  | ClosureBegin int "int list"
  | HistoryDeal int
  | SelectTrade nat
  | GetTick symbol
  | CloseTrade nat real real real real
  | UpdatePerformance string nat
  | BrainTradeClosed string symbol direction real real real bool int

text \<open>The entry that the loop writes to \<^verbatim>\<open>all_signals_summary[strat_key]\<close>.\<close>

datatype signal_status =
    SkippedNoSlTp
  | InvalidSlTp
  | Accepted direction real pyfloat pyfloat
  | ErrorStatus error

text \<open>
  The answers of the collaborators while one signal is processed: each is called at most
  once. \<open>db_answer\<close> stands for the whole block that records the trade to the database
  (lines 778 to 802): the id of the trade created there, or the exception that the block
  raised. \<open>publish_answer\<close> is indexed by the event type. The brain has no answer here:
  the loop swallows its failure and uses no result of it.
\<close>

record pipeline_env =
  risk_answer :: "risk_check_result result"
  publish_answer :: "string \<Rightarrow> unit result"
  order_answer :: "order_result option result"
  db_answer :: "nat result"

text \<open>
  What the processing of one signal leaves behind: the engine state, the calls made, the
  summary entry, and the exception that escapes the handler of the strategy (line 817),
  if any.
\<close>

record pipeline_outcome =
  state_after :: engine_state
  calls :: "call list"
  status :: signal_status
  propagated :: "error option"

text \<open>\<^verbatim>\<open>x is None or x <= 0\<close>\<close>

definition missing_or_nonpositive :: "pyfloat option \<Rightarrow> bool" where
  "missing_or_nonpositive x = (case x of None \<Rightarrow> True | Some v \<Rightarrow> le_zero v)"

text \<open>
  Lines 605 to 644: the stop and the target after the fallback, or \<open>None\<close> when the loop
  leaves the signal with \<^verbatim>\<open>skipped_no_sl_tp\<close>. \<^verbatim>\<open>fallback_atr and fallback_atr > 0\<close>
  is false for \<^verbatim>\<open>None\<close> and for zero.
\<close>

definition enforce_sl_tp ::
  "signal \<Rightarrow> real option \<Rightarrow> symbol_config \<Rightarrow> (pyfloat option \<times> pyfloat option) option" where
  "enforce_sl_tp sig fallback_atr sym_cfg =
     (let sl_price = stop_loss sig; tp_price = take_profit sig in
      if missing_or_nonpositive sl_price \<or> missing_or_nonpositive tp_price then
        (case fallback_atr of
           None \<Rightarrow> None
         | Some a \<Rightarrow>
             if a \<noteq> 0 \<and> a > 0 then
               Some
                (if missing_or_nonpositive sl_price then
                   (if sig_direction sig = BUY
                    then Some (Val (entry_price sig - a * sl_atr_mult sym_cfg))
                    else Some (Val (entry_price sig + a * sl_atr_mult sym_cfg)))
                 else sl_price,
                 if missing_or_nonpositive tp_price then
                   (if sig_direction sig = BUY
                    then Some (Val (entry_price sig + a * tp_atr_mult sym_cfg))
                    else Some (Val (entry_price sig - a * tp_atr_mult sym_cfg)))
                 else tp_price)
             else None)
      else Some (sl_price, tp_price))"

text \<open>\<^verbatim>\<open>strat_key.split('_', 1)[1] if '_' in strat_key else strat_key\<close>\<close>

definition strategy_code_of :: "string \<Rightarrow> string" where
  "strategy_code_of strat_key =
     (if CHR ''_'' \<in> set strat_key
      then tl (dropWhile (\<lambda>c. c \<noteq> CHR ''_'') strat_key)
      else strat_key)"

text \<open>
  Lines 776 to 815: the trade is written to the database and, inside the same
  \<^verbatim>\<open>try\<close>, entered into \<^verbatim>\<open>_open_trades\<close> when the ticket is truthy. An exception of
  the block is logged and goes no further.
\<close>

definition record_trade ::
  "engine_state \<Rightarrow> pipeline_env \<Rightarrow> string \<Rightarrow> signal \<Rightarrow> order_result \<Rightarrow> engine_state" where
  "record_trade st env strat_key sig ord =
     (case db_answer env of
        Inl db_err \<Rightarrow> st
      | Inr db_trade_id \<Rightarrow>
          (case ticket ord of
             None \<Rightarrow> st
           | Some t \<Rightarrow>
               if t \<noteq> 0 then
                 st\<lparr>open_trades :=
                      AList.update t
                        \<lparr>trade_id = db_trade_id,
                         ti_strategy_code = strategy_code_of strat_key,
                         ti_symbol = sig_symbol sig,
                         ti_direction = sig_direction sig\<rparr>
                        (open_trades st)\<rparr>
               else st))"

text \<open>
  Lines 701 to 815, after the risk check has approved: the order, the trade-opened event,
  the notification of the brain (whose failure is swallowed) and the recording. The
  result is the state, the calls and the exception raised, if any.
\<close>

definition submit_order ::
  "engine_state \<Rightarrow> pipeline_env \<Rightarrow> string \<Rightarrow> signal \<Rightarrow> risk_check_result \<Rightarrow> pyfloat
     \<Rightarrow> pyfloat
     \<Rightarrow> engine_state \<times> call list \<times> error option" where
  "submit_order st env strat_key sig risk_check sl_price tp_price =
     (let open_call =
            OpenPosition (sig_symbol sig) (sig_direction sig) (position_size risk_check)
              sl_price tp_price (take 31 (''JSR_'' @ strat_key))
      in case order_answer env of
           Inl e \<Rightarrow> (st, [open_call], Some e)
         | Inr None \<Rightarrow> (st, [open_call], None)
         | Inr (Some ord) \<Rightarrow>
             (let opened =
                    Publish ''TRADE_OPENED''
                      (TradeOpened strat_key (sig_symbol sig) (sig_direction sig)
                         (position_size risk_check) (price ord) sl_price tp_price (ticket ord))
              in case publish_answer env ''TRADE_OPENED'' of
                   Inl e \<Rightarrow> (st, [open_call, opened], Some e)
                 | Inr u \<Rightarrow>
                     (record_trade st env strat_key sig ord,
                      [open_call, opened,
                       BrainTradeOpened strat_key (sig_symbol sig) (sig_direction sig)
                         (position_size risk_check) (price ord) (ticket ord),
                       CreateTrade (sig_symbol sig) (sig_direction sig)
                         (position_size risk_check)
                         (case price ord of None \<Rightarrow> entry_price sig | Some p \<Rightarrow> p)
                         sl_price tp_price (strategy_code_of strat_key)],
                      None)))"

text \<open>
  Lines 604 to 815 for one signal that \<^verbatim>\<open>run_cycle\<close> returned: enforcement of the stop
  and the target, final validation, risk check, rejection or submission. The fourth
  component is the exception raised inside the \<^verbatim>\<open>try\<close> of line 592, if any.
\<close>

definition signal_pipeline ::
  "engine_state \<Rightarrow> pipeline_env \<Rightarrow> symbol \<Rightarrow> string \<Rightarrow> signal \<Rightarrow> real option
     \<Rightarrow> engine_state \<times> call list \<times> signal_status option \<times> error option" where
  "signal_pipeline st env symbol strat_key sig fallback_atr =
     (case enforce_sl_tp sig fallback_atr (sym_cfg_of symbol) of
        None \<Rightarrow> (st, [], Some SkippedNoSlTp, None)
      | Some (None, tp) \<Rightarrow> (st, [], None, Some TypeError)
      | Some (Some sl_price, None) \<Rightarrow>
          if le_zero sl_price then (st, [], Some InvalidSlTp, None)
          else (st, [], None, Some TypeError)
      | Some (Some sl_price, Some tp_price) \<Rightarrow>
          if le_zero sl_price \<or> le_zero tp_price then (st, [], Some InvalidSlTp, None)
          else
            (let accepted = Some (Accepted (sig_direction sig) (entry_price sig) sl_price tp_price);
                 check = PreTradeCheck (sig_symbol sig) (sig_direction sig)
                           (abs_diff (entry_price sig) sl_price)
             in case risk_answer env of
                  Inl e \<Rightarrow> (st, [check], accepted, Some e)
                | Inr risk_check \<Rightarrow>
                    if \<not> approved risk_check then
                      (st,
                       [check,
                        Publish ''TRADE_REJECTED''
                          (TradeRejected strat_key (sig_symbol sig) (rc_reason risk_check))],
                       accepted,
                       (case publish_answer env ''TRADE_REJECTED'' of
                          Inl e \<Rightarrow> Some e
                        | Inr u \<Rightarrow> None))
                    else
                      (case submit_order st env strat_key sig risk_check sl_price tp_price of
                         (st', cs, raised) \<Rightarrow> (st', check # cs, accepted, raised))))"

text \<open>
  The handler of line 817 around the pipeline: an exception replaces the summary entry by
  the error and is published as \<^verbatim>\<open>STRATEGY_ERROR\<close>; only an exception of that
  publication leaves the handler.
\<close>

definition process_signal ::
  "engine_state \<Rightarrow> pipeline_env \<Rightarrow> symbol \<Rightarrow> string \<Rightarrow> signal \<Rightarrow> real option
     \<Rightarrow> pipeline_outcome" where
  "process_signal st env symbol strat_key sig fallback_atr =
     (case signal_pipeline st env symbol strat_key sig fallback_atr of
        (st', cs, entry, None) \<Rightarrow>
          \<lparr>state_after = st', calls = cs,
           status = (case entry of Some s \<Rightarrow> s | None \<Rightarrow> ErrorStatus TypeError),
           propagated = None\<rparr>
      | (st', cs, entry, Some e) \<Rightarrow>
          \<lparr>state_after = st',
           calls = cs @ [Publish ''STRATEGY_ERROR'' (StrategyError strat_key symbol e)],
           status = ErrorStatus e,
           propagated =
             (case publish_answer env ''STRATEGY_ERROR'' of
                Inl e' \<Rightarrow> Some e'
              | Inr u \<Rightarrow> None)\<rparr>)"

section \<open>The orchestration loop: closure reconciliation\<close>

text \<open>
  The JSON object of \<^verbatim>\<open>/history/deal\<close>, read with \<^verbatim>\<open>.get(key, 0.0)\<close>, and the tick,
  read with \<^verbatim>\<open>.get('bid', 0.0)\<close> and \<^verbatim>\<open>.get('ask', 0.0)\<close>: an absent key is \<open>None\<close>.
\<close>

record position_data =
  pd_price :: "real option"
  pd_profit :: "real option"
  pd_commission :: "real option"
  pd_swap :: "real option"

record tick =
  bid :: "real option"
  ask :: "real option"

record trade_row =
  row_entry_price :: real

text \<open>
  The answers of the collaborators during one reconciliation.
  \<open>positions_answer\<close> is the list returned by \<^verbatim>\<open>get_open_positions\<close>, each position
  read with \<^verbatim>\<open>.get('ticket')\<close>. \<open>history_answer\<close> is the value of \<^verbatim>\<open>position_data\<close>
  as the test of line 977 sees it: \<open>None\<close> when the request raised, when the status was
  not 200 or when the object was empty. \<open>select_answer\<close> is the row found for a trade id,
  \<open>close_answer\<close> the outcome of \<^verbatim>\<open>TradeService.close_trade\<close>.
\<close>

record closure_env =
  positions_answer :: "int option list result"
  history_answer :: "int \<Rightarrow> position_data option"
  select_answer :: "nat \<Rightarrow> trade_row option result"
  tick_answer :: "symbol \<Rightarrow> tick result"
  close_answer :: "nat \<Rightarrow> unit result"

text \<open>\<^verbatim>\<open>d.get(key, 0.0)\<close>\<close>

definition get_or_zero :: "real option \<Rightarrow> real" where
  "get_or_zero v = (case v of None \<Rightarrow> 0 | Some x \<Rightarrow> x)"

text \<open>
  Lines 972 to 991: exit price, profit, commission and swap of a closure, and the call
  made to obtain them.
\<close>

definition closure_values ::
  "closure_env \<Rightarrow> int \<Rightarrow> trade_info \<Rightarrow> (real \<times> real \<times> real \<times> real) \<times> call list" where
  "closure_values env tkt info =
     (case history_answer env tkt of
        Some pd \<Rightarrow>
          ((get_or_zero (pd_price pd), get_or_zero (pd_profit pd),
            get_or_zero (pd_commission pd), get_or_zero (pd_swap pd)), [])
      | None \<Rightarrow>
          (case tick_answer env (ti_symbol info) of
             Inl e \<Rightarrow> ((0, 0, 0, 0), [GetTick (ti_symbol info)])
           | Inr tk \<Rightarrow>
               ((if ti_direction info = BUY then get_or_zero (bid tk) else get_or_zero (ask tk),
                 0, 0, 0),
                [GetTick (ti_symbol info)])))"

text \<open>
  Lines 953 to 1040 for one ticket that has been taken out of \<^verbatim>\<open>_open_trades\<close>: the
  state is the one in which the processing starts.
\<close>

definition process_closure ::
  "engine_state \<Rightarrow> closure_env \<Rightarrow> int \<Rightarrow> trade_info \<Rightarrow> call list" where
  "process_closure st env tkt info =
     [ClosureBegin tkt (map fst (open_trades st)), HistoryDeal tkt, SelectTrade (trade_id info)] @
     (case select_answer env (trade_id info) of
        Inl e \<Rightarrow> []
      | Inr None \<Rightarrow> []
      | Inr (Some trade_obj) \<Rightarrow>
          (case closure_values env tkt info of
             ((exit_price, profit, commission, swap), cs) \<Rightarrow>
               cs @ [CloseTrade (trade_id info) exit_price profit commission swap] @
               (case close_answer env (trade_id info) of
                  Inl e \<Rightarrow> []
                | Inr u \<Rightarrow>
                    (let net_profit = profit - commission - swap in
                     [SelectTrade (trade_id info),
                      UpdatePerformance (ti_strategy_code info) (trade_id info),
                      BrainTradeClosed (ti_symbol info @ ''_'' @ ti_strategy_code info)
                        (ti_symbol info) (ti_direction info) (row_entry_price trade_obj)
                        exit_price net_profit (net_profit > 0) tkt]))))"

text \<open>
  The loop of line 948 over \<^verbatim>\<open>closed_tickets\<close>. \<^verbatim>\<open>pop\<close> of a ticket that the dict does
  not hold raises KeyError, which the handler of line 1042 catches: the loop ends there.
\<close>

fun close_loop :: "engine_state \<Rightarrow> closure_env \<Rightarrow> int list \<Rightarrow> engine_state \<times> call list" where
  "close_loop st env [] = (st, [])"
| "close_loop st env (tkt # rest) =
     (case map_of (open_trades st) tkt of
        None \<Rightarrow> (st, [])
      | Some info \<Rightarrow>
          (let st1 = st\<lparr>open_trades := AList.delete tkt (open_trades st)\<rparr>
           in case close_loop st1 env rest of
                (st', cs) \<Rightarrow> (st', process_closure st1 env tkt info @ cs)))"

text \<open>\<^verbatim>\<open>_check_closed_positions\<close>\<close>

definition check_closed_positions ::
  "engine_state \<Rightarrow> closure_env \<Rightarrow> engine_state \<times> call list" where
  "check_closed_positions st env =
     (if open_trades st = [] then (st, [])
      else
        (case positions_answer env of
           Inl e \<Rightarrow> (st, [GetOpenPositions])
         | Inr mt5_positions \<Rightarrow>
             (let closed_tickets =
                    filter (\<lambda>t. Some t \<notin> set mt5_positions) (map fst (open_trades st))
              in case close_loop st env closed_tickets of
                   (st', cs) \<Rightarrow> (st', GetOpenPositions # cs))))"

text \<open>
  The reconciliation run in \<open>n\<close> consecutive cycles against the same answers of the
  collaborators: the state after the last run and the calls of all runs.
\<close>

fun reconcile_times :: "nat \<Rightarrow> engine_state \<Rightarrow> closure_env \<Rightarrow> engine_state \<times> call list" where
  "reconcile_times 0 st env = (st, [])"
| "reconcile_times (Suc n) st env =
     (case check_closed_positions st env of
        (st1, cs) \<Rightarrow>
          (case reconcile_times n st1 env of
             (st2, cs') \<Rightarrow> (st2, cs @ cs')))"

text \<open>The entries of a call list that start the processing of the closure of a ticket.\<close>

definition closures_of :: "int \<Rightarrow> call list \<Rightarrow> call list" where
  "closures_of tkt cs = filter (\<lambda>c. case c of ClosureBegin t held \<Rightarrow> t = tkt | _ \<Rightarrow> False) cs"

section \<open>Strategy D: the momentum scalper\<close>

record config =
  bb_period :: int
  bb_std :: real
  rsi_period :: int
  rsi_oversold :: real
  rsi_overbought :: real
  atr_period :: int

text \<open>The defaults of \<^verbatim>\<open>StrategyD.__init__\<close>.\<close>

definition default_config :: config where
  "default_config =
     \<lparr>bb_period = 20, bb_std = 2.0, rsi_period = 14, rsi_oversold = 30,
      rsi_overbought = 70, atr_period = 14\<rparr>"

text \<open>
  The indicator library (\<^verbatim>\<open>app.indicators.volatility\<close>, \<^verbatim>\<open>app.indicators.momentum\<close>) is
  imported by the strategy and is not among the sources at hand, so its three functions
  are parameters of the model. Each returns its series, with \<open>None\<close> for NaN, or raises.
\<close>

record indicators =
  bollinger_bands ::
    "real list \<Rightarrow> int \<Rightarrow> real \<Rightarrow> (real option list \<times> real option list \<times> real option list) result"
  rsi :: "real list \<Rightarrow> int \<Rightarrow> real option list result"
  atr :: "real list \<Rightarrow> real list \<Rightarrow> real list \<Rightarrow> int \<Rightarrow> real option list result"

text \<open>
  The entries of \<^verbatim>\<open>buy_signals\<close> and \<^verbatim>\<open>sell_signals\<close>. The source appends a formatted
  text for each trigger; the model keeps which trigger it was.
\<close>

datatype trigger =
    BelowLowerBand | RsiOversold | BurstBullish
  | AboveUpperBand | RsiOverbought | BurstBearish

record strategy_signal =
  direction :: direction
  confidence :: real
  sl_price :: real
  tp_price :: real
  reason :: "trigger list"
  strategy_code :: string

text \<open>\<^verbatim>\<open>series.iloc[-6:-1]\<close>\<close>

definition iloc_m6_m1 :: "'a list \<Rightarrow> 'a list" where
  "iloc_m6_m1 xs = butlast (drop (length xs - 6) xs)"

text \<open>\<^verbatim>\<open>series.mean()\<close>: NaN for an empty series.\<close>

definition mean :: "real list \<Rightarrow> real option" where
  "mean xs = (if xs = [] then None else Some (sum_list xs / real (length xs)))"

text \<open>
  Lines 191 to 206: the pair \<^verbatim>\<open>(momentum_buy, momentum_sell)\<close>. A comparison with NaN
  is false.
\<close>

definition momentum_burst ::
  "int \<Rightarrow> real list \<Rightarrow> real list \<Rightarrow> real \<Rightarrow> real \<Rightarrow> real \<Rightarrow> real \<Rightarrow> bool \<times> bool" where
  "momentum_burst n close_s open_s latest_close latest_open latest_high latest_low =
     (if n \<ge> 6 then
        (let current_body = \<bar>latest_close - latest_open\<bar>;
             candle_range = latest_high - latest_low;
             body_ratio = (if candle_range > 0 then current_body / candle_range else 0);
             recent_bodies = map2 (\<lambda>c o_p. \<bar>c - o_p\<bar>) (iloc_m6_m1 close_s) (iloc_m6_m1 open_s);
             avg_body = mean recent_bodies
         in if (case avg_body of None \<Rightarrow> False | Some a \<Rightarrow> current_body > 1.5 * a)
               \<and> body_ratio > 0.6
            then (if latest_close > latest_open then (True, False) else (False, True))
            else (False, False))
      else (False, False))"

text \<open>The state of \<^verbatim>\<open>generate_signal\<close> at line 226, when it gets there.\<close>

record evaluation =
  buy_signals :: "trigger list"
  sell_signals :: "trigger list"
  latest_close :: real
  latest_rsi :: real
  latest_atr :: real

definition min_data :: "config \<Rightarrow> int" where
  "min_data cfg = max (bb_period cfg) (rsi_period cfg) + 5"

text \<open>
  Lines 126 to 224 of \<^verbatim>\<open>generate_signal\<close>: an exception, an early \<^verbatim>\<open>return None\<close>
  (too few rows, or a NaN among the latest indicator values), or the two trigger lists.
\<close>

definition evaluate_triggers ::
  "config \<Rightarrow> indicators \<Rightarrow> dataframe \<Rightarrow> evaluation option result" where
  "evaluate_triggers cfg ind candles_df =
     (if len_df candles_df < min_data cfg then Inr None
      else
        then_res (column candles_df ''close'' close) (\<lambda>close_s.
        then_res (column candles_df ''high'' high) (\<lambda>high_s.
        then_res (column candles_df ''low'' low) (\<lambda>low_s.
        then_res (column candles_df ''open'' open_price) (\<lambda>open_s.
        then_res (bollinger_bands ind close_s (bb_period cfg) (bb_std cfg))
          (\<lambda>(upper_band, middle_band, lower_band).
        then_res (rsi ind close_s (rsi_period cfg)) (\<lambda>rsi_values.
        then_res (atr ind high_s low_s close_s (atr_period cfg)) (\<lambda>atr_values.
        then_res (iloc_last close_s) (\<lambda>l_close.
        then_res (iloc_last open_s) (\<lambda>l_open.
        then_res (iloc_last high_s) (\<lambda>l_high.
        then_res (iloc_last low_s) (\<lambda>l_low.
        then_res (iloc_last upper_band) (\<lambda>l_upper_band.
        then_res (iloc_last middle_band) (\<lambda>l_middle_band.
        then_res (iloc_last lower_band) (\<lambda>l_lower_band.
        then_res (iloc_last rsi_values) (\<lambda>l_rsi.
        then_res (iloc_last atr_values) (\<lambda>l_atr.
          Inr (Option.bind l_upper_band (\<lambda>ub.
               Option.bind l_lower_band (\<lambda>lb.
               Option.bind l_middle_band (\<lambda>mb.
               Option.bind l_rsi (\<lambda>r.
               Option.bind l_atr (\<lambda>a.
                 (let bb_buy = l_close < lb;
                      bb_sell = l_close > ub;
                      rsi_buy = r < rsi_oversold cfg;
                      rsi_sell = r > rsi_overbought cfg;
                      momentum =
                        momentum_burst (len_df candles_df) close_s open_s
                          l_close l_open l_high l_low
                  in Some
                      \<lparr>buy_signals =
                         (if bb_buy then [BelowLowerBand] else []) @
                         (if rsi_buy then [RsiOversold] else []) @
                         (if fst momentum then [BurstBullish] else []),
                       sell_signals =
                         (if bb_sell then [AboveUpperBand] else []) @
                         (if rsi_sell then [RsiOverbought] else []) @
                         (if snd momentum then [BurstBearish] else []),
                       latest_close = l_close, latest_rsi = r, latest_atr = a\<rparr>)))))))
        )))))))))))))))))"

text \<open>Lines 250 to 292: stops, their validation, confidence and the signal.\<close>

definition build_signal :: "direction \<Rightarrow> trigger list \<Rightarrow> evaluation \<Rightarrow> strategy_signal option" where
  "build_signal signal_direction reasons ev =
     (let sl = (if signal_direction = BUY
                then latest_close ev - (latest_atr ev * 1.0)
                else latest_close ev + (latest_atr ev * 1.0));
          tp = (if signal_direction = BUY
                then latest_close ev + (latest_atr ev * 1.5)
                else latest_close ev - (latest_atr ev * 1.5))
      in if sl \<le> 0 \<or> tp \<le> 0 then None
         else Some
               \<lparr>direction = signal_direction,
                confidence = min (\<bar>latest_rsi ev - 50.0\<bar> / 50.0) 1.0,
                sl_price = sl, tp_price = tp, reason = reasons, strategy_code = ''D''\<rparr>)"

text \<open>Lines 226 to 248: one direction only, or no signal.\<close>

definition decide :: "evaluation \<Rightarrow> strategy_signal option" where
  "decide ev =
     (if buy_signals ev \<noteq> [] \<and> \<not> sell_signals ev \<noteq> [] then
        build_signal BUY (buy_signals ev) ev
      else if sell_signals ev \<noteq> [] \<and> \<not> buy_signals ev \<noteq> [] then
        build_signal SELL (sell_signals ev) ev
      else None)"

text \<open>The body of the \<^verbatim>\<open>try\<close> of \<^verbatim>\<open>generate_signal\<close>.\<close>

definition generate_signal_body ::
  "config \<Rightarrow> indicators \<Rightarrow> dataframe \<Rightarrow> strategy_signal option result" where
  "generate_signal_body cfg ind candles_df =
     then_res (evaluate_triggers cfg ind candles_df)
       (\<lambda>ev. Inr (case ev of None \<Rightarrow> None | Some e \<Rightarrow> decide e))"

text \<open>
  \<^verbatim>\<open>StrategyD.generate_signal\<close>: the body inside \<^verbatim>\<open>try\<close>, and the handler
  \<^verbatim>\<open>except Exception\<close> of line 294, which logs and returns \<^verbatim>\<open>None\<close>. The result keeps
  the type of the body, so that what reaches the caller can be an exception or a value.
\<close>

definition generate_signal ::
  "config \<Rightarrow> indicators \<Rightarrow> dataframe \<Rightarrow> strategy_signal option result" where
  "generate_signal cfg ind candles_df =
     (case generate_signal_body cfg ind candles_df of
        Inl e \<Rightarrow> Inr None
      | Inr r \<Rightarrow> Inr r)"

section \<open>Concrete inputs\<close>

definition approving_env :: pipeline_env where
  "approving_env =
     \<lparr>risk_answer =
        Inr \<lparr>approved = True, rc_reason = ''ok'', position_size = 0.02, risk_score = 0.1\<rparr>,
      publish_answer = (\<lambda>event_type. Inr ()),
      order_answer = Inr (Some \<lparr>ticket = Some 1001, price = Some 1.1\<rparr>),
      db_answer = Inr 7\<rparr>"

definition rejecting_env :: pipeline_env where
  "rejecting_env =
     approving_env\<lparr>risk_answer :=
        Inr \<lparr>approved = False, rc_reason = ''kill switch active'', position_size = 0,
             risk_score = 1\<rparr>\<rparr>"

definition db_failing_env :: pipeline_env where
  "db_failing_env = approving_env\<lparr>db_answer := Inl (CollaboratorError ''database'')\<rparr>"

definition bare_signal :: signal where
  "bare_signal =
     \<lparr>sig_direction = BUY, entry_price = 1.1, stop_loss = None, take_profit = None,
      sig_symbol = ''EURUSD''\<rparr>"

definition full_signal :: signal where
  "full_signal = bare_signal\<lparr>stop_loss := Some (Val 1.0), take_profit := Some (Val 1.2)\<rparr>"

definition nan_signal :: signal where
  "nan_signal = bare_signal\<lparr>stop_loss := Some (Val 1.0), take_profit := Some NaN\<rparr>"

definition tracked_trade :: "direction \<Rightarrow> trade_info" where
  "tracked_trade d =
     \<lparr>trade_id = 7, ti_strategy_code = ''D'', ti_symbol = ''EURUSD'', ti_direction = d\<rparr>"

definition tracking_state :: engine_state where
  "tracking_state = initial_state\<lparr>open_trades := [(1001, tracked_trade BUY), (1002, tracked_trade SELL)]\<rparr>"

definition broker_env :: "int option list \<Rightarrow> closure_env" where
  "broker_env open_now =
     \<lparr>positions_answer = Inr open_now,
      history_answer = (\<lambda>t. None),
      select_answer = (\<lambda>i. Inr (Some \<lparr>row_entry_price = 1.1\<rparr>)),
      tick_answer = (\<lambda>s. Inr \<lparr>bid = Some 1.2, ask = Some 1.3\<rparr>),
      close_answer = (\<lambda>i. Inr ())\<rparr>"

definition fixed_indicators ::
  "real option \<Rightarrow> real option \<Rightarrow> real option \<Rightarrow> real option \<Rightarrow> real option \<Rightarrow> indicators" where
  "fixed_indicators ub mb lb r a =
     \<lparr>bollinger_bands = (\<lambda>c p s. Inr ([ub], [mb], [lb])),
      rsi = (\<lambda>c p. Inr [r]),
      atr = (\<lambda>h l c p. Inr [a])\<rparr>"

definition flat_window :: "nat \<Rightarrow> real \<Rightarrow> dataframe" where
  "flat_window n c = \<lparr>rows = replicate n (mk_candle 0 c c c c), columns = ohlcv\<rparr>"

definition history_env :: "int option list \<Rightarrow> closure_env" where
  "history_env open_now =
     (broker_env open_now)\<lparr>history_answer :=
        (\<lambda>t. Some \<lparr>pd_price = Some 1.25, pd_profit = Some 10, pd_commission = Some 1,
                      pd_swap = Some 2\<rparr>)\<rparr>"

definition frame_without_close :: dataframe where
  "frame_without_close = (flat_window 25 100)\<lparr>columns := [''open'', ''high'', ''low'']\<rparr>"

definition cursor_at :: "timestamp \<Rightarrow> engine_state" where
  "cursor_at t = initial_state\<lparr>last_candle_time := [(''EURUSD'', ''M15'') \<mapsto> t]\<rparr>"

definition ordered_fetches :: "dataframe result list" where
  "ordered_fetches = [Inr (flat_frame [10, 11]), Inr (flat_frame [12]), Inr (flat_frame [11, 12])]"

section \<open>Candle-change detection: properties\<close>

lemma detect_new_candle_usable:
  "usable_latest fetched = Some l \<Longrightarrow>
   detect_new_candle st k fetched =
     ((case last_candle_time st k of None \<Rightarrow> True | Some p \<Rightarrow> l > p),
      st\<lparr>last_candle_time := (last_candle_time st)(k \<mapsto> l)\<rparr>)"
  by (auto simp: usable_latest_def detect_new_candle_def Let_def
           split: sum.splits if_splits option.splits)

lemma detect_new_candle_unusable:
  "usable_latest fetched = None \<Longrightarrow> detect_new_candle st k fetched = (False, st)"
  by (auto simp: usable_latest_def detect_new_candle_def split: sum.splits if_splits)

lemma usable_flat_two: "usable_latest (Inr (flat_frame [t1, t2])) = Some t2"
  by (simp add: usable_latest_def flat_frame_def empty_df_def len_df_def ohlcv_def mk_candle_def)

lemma usable_flat_one: "usable_latest (Inr (flat_frame [t1])) = None"
  by (simp add: usable_latest_def flat_frame_def empty_df_def len_df_def ohlcv_def mk_candle_def)

lemma cursor_at_lookup: "last_candle_time (cursor_at t) (''EURUSD'', ''M15'') = Some t"
  by (simp add: cursor_at_def)

text \<open>
  Claim C5, as amended. When the fetched series passes the guard of line 567 (it is not
  empty and has at least two rows) and \<open>l\<close> is its latest timestamp: with no cursor for
  the key the detection yields new = true and records \<open>l\<close>; with a cursor strictly below
  \<open>l\<close> it yields new = true; with a cursor equal to or above \<open>l\<close> it yields new = false.
\<close>

theorem candle_change_detection:
  assumes "usable_latest fetched = Some l"
  shows "(last_candle_time st k = None \<longrightarrow>
            detect_new_candle st k fetched =
              (True, st\<lparr>last_candle_time := (last_candle_time st)(k \<mapsto> l)\<rparr>))
       \<and> (\<forall>p. last_candle_time st k = Some p \<and> p < l \<longrightarrow>
            fst (detect_new_candle st k fetched) = True)
       \<and> (\<forall>p. last_candle_time st k = Some p \<and> l \<le> p \<longrightarrow>
            fst (detect_new_candle st k fetched) = False)"
  using assms by (auto simp: detect_new_candle_usable)

theorem candle_change_detection_witness:
  "usable_latest (Inr (flat_frame [9, 10])) = Some 10
   \<and> last_candle_time initial_state (''EURUSD'', ''M15'') = None
   \<and> detect_new_candle initial_state (''EURUSD'', ''M15'') (Inr (flat_frame [9, 10])) =
       (True, initial_state\<lparr>last_candle_time :=
                 (last_candle_time initial_state)((''EURUSD'', ''M15'') \<mapsto> 10)\<rparr>)
   \<and> fst (detect_new_candle (cursor_at 8) (''EURUSD'', ''M15'') (Inr (flat_frame [9, 10]))) = True
   \<and> fst (detect_new_candle (cursor_at 10) (''EURUSD'', ''M15'') (Inr (flat_frame [9, 10]))) = False
   \<and> fst (detect_new_candle (cursor_at 12) (''EURUSD'', ''M15'') (Inr (flat_frame [9, 10]))) = False"
proof -
  have u: "usable_latest (Inr (flat_frame [9, 10])) = Some 10"
    by (rule usable_flat_two)
  have n: "last_candle_time initial_state (''EURUSD'', ''M15'') = None"
    by (simp add: initial_state_def)
  from candle_change_detection[OF u, of initial_state "(''EURUSD'', ''M15'')"]
       candle_change_detection[OF u, of "cursor_at 8" "(''EURUSD'', ''M15'')"]
       candle_change_detection[OF u, of "cursor_at 10" "(''EURUSD'', ''M15'')"]
       candle_change_detection[OF u, of "cursor_at 12" "(''EURUSD'', ''M15'')"]
  show ?thesis using u n by (simp add: cursor_at_lookup)
qed

text \<open>
  Claim C5, as stated, fails on a series of one row: it has a latest timestamp and the key
  has no cursor, yet the detection yields new = false and records nothing.
\<close>

theorem first_observation_of_short_series:
  "last_candle_time initial_state (''EURUSD'', ''M15'') = None \<and>
   detect_new_candle initial_state (''EURUSD'', ''M15'') (Inr (flat_frame [7])) =
     (False, initial_state)"
  by (simp add: detect_new_candle_def flat_frame_def empty_df_def len_df_def initial_state_def)

lemma detect_cycles_cursor:
  "last_candle_time st k = Some p \<Longrightarrow>
   last_candle_time (detect_cycles st k fetches) k =
     Some (last (p # List.map_filter usable_latest fetches))"
proof (induction fetches arbitrary: st p)
  case Nil
  then show ?case by simp
next
  case (Cons f fs)
  show ?case
  proof (cases "usable_latest f")
    case None
    with Cons show ?thesis
      by (simp add: detect_new_candle_unusable)
  next
    case (Some l)
    have "last_candle_time (snd (detect_new_candle st k f)) k = Some l"
      using Some by (simp add: detect_new_candle_usable)
    from Cons.IH[OF this] Some show ?thesis
      by simp
  qed
qed

lemma map_filter_append:
  "List.map_filter f (xs @ ys) = List.map_filter f xs @ List.map_filter f ys"
  by (simp add: List.map_filter_def)

lemma sorted_last_le: "sorted (xs @ [l]) \<Longrightarrow> xs \<noteq> [] \<Longrightarrow> last xs \<le> (l::int)"
  by (simp add: sorted_append)

text \<open>
  Claim C3, as amended. Every fetched series that passes the guard of line 567 overwrites
  the cursor of its key with its latest timestamp. So along consecutive cycles the cursor
  after a cycle is the latest timestamp of the last such series, and it does not decrease
  from one cycle to the next as long as those timestamps, starting from the stored cursor,
  come in non-decreasing order.
\<close>

theorem cursor_follows_latest_fetch:
  assumes "last_candle_time st k = Some p"
    and "sorted (p # List.map_filter usable_latest fetches)"
    and "n < length fetches"
  shows "\<exists>c c'. last_candle_time (detect_cycles st k (take n fetches)) k = Some c
      \<and> last_candle_time (detect_cycles st k (take (Suc n) fetches)) k = Some c'
      \<and> c' = last (p # List.map_filter usable_latest (take (Suc n) fetches))
      \<and> c \<le> c'"
proof -
  let ?M = "List.map_filter usable_latest (take n fetches)"
  let ?x = "fetches ! n"
  define mid where "mid = List.map_filter usable_latest [?x]"
  define rest where "rest = List.map_filter usable_latest (drop (Suc n) fetches)"
  have split: "fetches = take n fetches @ [?x] @ drop (Suc n) fetches"
    using assms(3) by (simp add: id_take_nth_drop)
  have tk: "take (Suc n) fetches = take n fetches @ [?x]"
    using assms(3) by (simp add: take_Suc_conv_app_nth)
  have "List.map_filter usable_latest (take n fetches @ [?x] @ drop (Suc n) fetches)
          = ?M @ mid @ rest"
    by (simp only: map_filter_append mid_def rest_def)
  with split have "List.map_filter usable_latest fetches = ?M @ mid @ rest" by simp
  with assms(2) have "sorted ((p # ?M) @ mid @ rest)" by simp
  then have "sorted ((p # ?M) @ mid)" unfolding sorted_append by auto
  then have srt: "sorted ((p # ?M) @ List.map_filter usable_latest [?x])"
    by (simp only: mid_def)
  have c: "last_candle_time (detect_cycles st k (take n fetches)) k = Some (last (p # ?M))"
    by (rule detect_cycles_cursor[OF assms(1)])
  have c': "last_candle_time (detect_cycles st k (take (Suc n) fetches)) k
              = Some (last (p # List.map_filter usable_latest (take (Suc n) fetches)))"
    by (rule detect_cycles_cursor[OF assms(1)])
  have "last (p # ?M) \<le> last (p # List.map_filter usable_latest (take (Suc n) fetches))"
  proof (cases "usable_latest ?x")
    case None
    then show ?thesis by (simp add: tk map_filter_append)
  next
    case (Some l)
    then have "sorted ((p # ?M) @ [l])" using srt by simp
    then have "last (p # ?M) \<le> l" by (rule sorted_last_le) simp
    then show ?thesis using Some by (simp add: tk map_filter_append)
  qed
  with c c' show ?thesis by blast
qed

theorem cursor_follows_latest_fetch_witness:
  "last_candle_time (cursor_at 10) (''EURUSD'', ''M15'') = Some 10
   \<and> sorted (10 # List.map_filter usable_latest ordered_fetches)
   \<and> 2 < length ordered_fetches
   \<and> (\<exists>c c'. last_candle_time (detect_cycles (cursor_at 10) (''EURUSD'', ''M15'')
                  (take 2 ordered_fetches)) (''EURUSD'', ''M15'') = Some c
      \<and> last_candle_time (detect_cycles (cursor_at 10) (''EURUSD'', ''M15'')
                  (take (Suc 2) ordered_fetches)) (''EURUSD'', ''M15'') = Some c'
      \<and> c' = 12 \<and> c \<le> c')"
proof -
  have a: "last_candle_time (cursor_at 10) (''EURUSD'', ''M15'') = Some 10"
    by (rule cursor_at_lookup)
  have b: "sorted (10 # List.map_filter usable_latest ordered_fetches)"
    by (simp add: ordered_fetches_def usable_flat_two usable_flat_one)
  have n: "2 < length ordered_fetches" by (simp add: ordered_fetches_def)
  have l: "last (10 # List.map_filter usable_latest (take (Suc 2) ordered_fetches)) = 12"
    by (simp add: ordered_fetches_def usable_flat_two usable_flat_one)
  from cursor_follows_latest_fetch[OF a b n] a b n show ?thesis
    by (simp only: l)
qed

text \<open>
  Claim C3, as stated, fails: with the cursor of the key at 10, a fetched series whose
  latest timestamp is 5 leaves the cursor at 5.
\<close>

theorem cursor_decreases_on_earlier_series:
  "last_candle_time (cursor_at 10) (''EURUSD'', ''M15'') = Some 10
   \<and> last_candle_time
       (snd (detect_new_candle (cursor_at 10) (''EURUSD'', ''M15'') (Inr (flat_frame [4, 5]))))
       (''EURUSD'', ''M15'') = Some 5"
  by (simp add: detect_new_candle_usable usable_flat_two cursor_at_lookup)

section \<open>From a signal to an order: properties\<close>

lemma submit_order_calls:
  "submit_order st env k sig rc sl tp = (st', cs, r) \<Longrightarrow>
   OpenPosition s d l sl' tp' cm \<in> set cs \<Longrightarrow> sl' = sl \<and> tp' = tp"
  by (auto simp: submit_order_def Let_def split: sum.splits option.splits)

lemma signal_pipeline_open_guarded:
  "signal_pipeline st env symbol k sig fa = (st', cs, entry, r) \<Longrightarrow>
   OpenPosition s d l sl tp cm \<in> set cs \<Longrightarrow> \<not> le_zero sl \<and> \<not> le_zero tp"
  by (auto simp: signal_pipeline_def Let_def
           split: option.splits if_splits sum.splits prod.splits
           dest: submit_order_calls)

lemma process_signal_calls:
  "signal_pipeline st env symbol k sig fa = (st', cs, entry, r) \<Longrightarrow>
   c \<in> set (calls (process_signal st env symbol k sig fa)) \<Longrightarrow>
   c \<in> set cs \<or> (\<exists>e. c = Publish ''STRATEGY_ERROR'' (StrategyError k symbol e))"
  by (auto simp: process_signal_def split: option.splits)

lemma process_signal_calls_prefix:
  "signal_pipeline st env symbol k sig fa = (st', cs, entry, r) \<Longrightarrow>
   set cs \<subseteq> set (calls (process_signal st env symbol k sig fa))"
  by (auto simp: process_signal_def split: option.splits)

lemma approving_run:
  "process_signal initial_state approving_env ''EURUSD'' ''EURUSD_D'' bare_signal (Some (1/5)) =
     \<lparr>state_after =
        initial_state\<lparr>open_trades :=
          [(1001, \<lparr>trade_id = 7, ti_strategy_code = ''D'', ti_symbol = ''EURUSD'',
                   ti_direction = BUY\<rparr>)]\<rparr>,
      calls = [PreTradeCheck ''EURUSD'' BUY (Val (3/10)),
               OpenPosition ''EURUSD'' BUY (1/50) (Val (4/5)) (Val (3/2)) ''JSR_EURUSD_D'',
               Publish ''TRADE_OPENED''
                 (TradeOpened ''EURUSD_D'' ''EURUSD'' BUY (1/50) (Some (11/10)) (Val (4/5)) (Val (3/2))
                    (Some 1001)),
               BrainTradeOpened ''EURUSD_D'' ''EURUSD'' BUY (1/50) (Some (11/10)) (Some 1001),
               CreateTrade ''EURUSD'' BUY (1/50) (11/10) (Val (4/5)) (Val (3/2)) ''D''],
      status = Accepted BUY (11/10) (Val (4/5)) (Val (3/2)),
      propagated = None\<rparr>"
  by (simp add: process_signal_def signal_pipeline_def enforce_sl_tp_def Let_def submit_order_def
        record_trade_def sym_cfg_of_def SYMBOL_CONFIGS_def strategy_code_of_def
        missing_or_nonpositive_def le_zero_def abs_diff_def bare_signal_def approving_env_def initial_state_def)

lemma db_failing_run:
  "process_signal initial_state db_failing_env ''EURUSD'' ''EURUSD_D'' bare_signal (Some (1/5)) =
     \<lparr>state_after = initial_state,
      calls = [PreTradeCheck ''EURUSD'' BUY (Val (3/10)),
               OpenPosition ''EURUSD'' BUY (1/50) (Val (4/5)) (Val (3/2)) ''JSR_EURUSD_D'',
               Publish ''TRADE_OPENED''
                 (TradeOpened ''EURUSD_D'' ''EURUSD'' BUY (1/50) (Some (11/10)) (Val (4/5)) (Val (3/2))
                    (Some 1001)),
               BrainTradeOpened ''EURUSD_D'' ''EURUSD'' BUY (1/50) (Some (11/10)) (Some 1001),
               CreateTrade ''EURUSD'' BUY (1/50) (11/10) (Val (4/5)) (Val (3/2)) ''D''],
      status = Accepted BUY (11/10) (Val (4/5)) (Val (3/2)),
      propagated = None\<rparr>"
  by (simp add: process_signal_def signal_pipeline_def enforce_sl_tp_def Let_def submit_order_def
        record_trade_def sym_cfg_of_def SYMBOL_CONFIGS_def strategy_code_of_def
        missing_or_nonpositive_def le_zero_def abs_diff_def bare_signal_def db_failing_env_def approving_env_def)

lemma no_atr_run:
  "calls (process_signal initial_state approving_env ''EURUSD'' ''EURUSD_D'' bare_signal None) = []"
  by (simp add: process_signal_def signal_pipeline_def enforce_sl_tp_def Let_def
        missing_or_nonpositive_def le_zero_def abs_diff_def bare_signal_def)

lemma rejected_run:
  "calls (process_signal initial_state rejecting_env ''EURUSD'' ''EURUSD_D'' full_signal None) =
     [PreTradeCheck ''EURUSD'' BUY (Val (1/10)),
      Publish ''TRADE_REJECTED'' (TradeRejected ''EURUSD_D'' ''EURUSD'' ''kill switch active'')]"
  by (simp add: process_signal_def signal_pipeline_def enforce_sl_tp_def Let_def
        missing_or_nonpositive_def le_zero_def abs_diff_def full_signal_def bare_signal_def rejecting_env_def
        approving_env_def)

lemma nan_run:
  "process_signal initial_state approving_env ''EURUSD'' ''EURUSD_D'' nan_signal None =
     \<lparr>state_after =
        initial_state\<lparr>open_trades :=
          [(1001, \<lparr>trade_id = 7, ti_strategy_code = ''D'', ti_symbol = ''EURUSD'',
                   ti_direction = BUY\<rparr>)]\<rparr>,
      calls = [PreTradeCheck ''EURUSD'' BUY (Val (1/10)),
               OpenPosition ''EURUSD'' BUY (1/50) (Val 1) NaN ''JSR_EURUSD_D'',
               Publish ''TRADE_OPENED''
                 (TradeOpened ''EURUSD_D'' ''EURUSD'' BUY (1/50) (Some (11/10)) (Val 1) NaN
                    (Some 1001)),
               BrainTradeOpened ''EURUSD_D'' ''EURUSD'' BUY (1/50) (Some (11/10)) (Some 1001),
               CreateTrade ''EURUSD'' BUY (1/50) (11/10) (Val 1) NaN ''D''],
      status = Accepted BUY (11/10) (Val 1) NaN,
      propagated = None\<rparr>"
  by (simp add: process_signal_def signal_pipeline_def enforce_sl_tp_def Let_def submit_order_def
        record_trade_def strategy_code_of_def missing_or_nonpositive_def le_zero_def abs_diff_def
        nan_signal_def bare_signal_def approving_env_def initial_state_def)

text \<open>
  Claim C1 fails on the code for a take-profit that is NaN. The guards of lines 609 and
  647 only test \<^verbatim>\<open><= 0\<close>, which is false for NaN: the signal skips the fallback, passes
  the final validation, is sent to the risk gate and, once approved, reaches
  \<^verbatim>\<open>open_position\<close> with tp = NaN, which is not a strictly positive price.
\<close>

theorem nan_take_profit_reaches_open_position:
  "stop_loss nan_signal = Some (Val 1) \<and> take_profit nan_signal = Some NaN
   \<and> \<not> missing_or_nonpositive (take_profit nan_signal)
   \<and> calls (process_signal initial_state approving_env ''EURUSD'' ''EURUSD_D'' nan_signal None) =
       [PreTradeCheck ''EURUSD'' BUY (Val (1/10)),
        OpenPosition ''EURUSD'' BUY (1/50) (Val 1) NaN ''JSR_EURUSD_D'',
        Publish ''TRADE_OPENED''
          (TradeOpened ''EURUSD_D'' ''EURUSD'' BUY (1/50) (Some (11/10)) (Val 1) NaN (Some 1001)),
        BrainTradeOpened ''EURUSD_D'' ''EURUSD'' BUY (1/50) (Some (11/10)) (Some 1001),
        CreateTrade ''EURUSD'' BUY (1/50) (11/10) (Val 1) NaN ''D'']"
proof -
  have "stop_loss nan_signal = Some (Val 1)" and "take_profit nan_signal = Some NaN"
    by (simp_all add: nan_signal_def bare_signal_def)
  moreover have "\<not> missing_or_nonpositive (Some NaN)"
    by (simp add: missing_or_nonpositive_def le_zero_def)
  ultimately show ?thesis by (simp only: nan_run) simp
qed

text \<open>
  What the two guards do ensure: a stop and a target passed to \<^verbatim>\<open>open_position\<close> are
  not \<^verbatim>\<open><= 0\<close>, so each is strictly positive or NaN; and a signal whose stop or target
  is missing or not positive, in a cycle without a positive ATR for the symbol, is
  dropped with \<^verbatim>\<open>skipped_no_sl_tp\<close> before any call is made.
\<close>

lemma open_position_passes_guards:
  "(\<forall>c \<in> set (calls (process_signal st env symbol strat_key sig fallback_atr)).
      \<forall>s d lots sl tp cm. c = OpenPosition s d lots sl tp cm \<longrightarrow>
        (sl = NaN \<or> (\<exists>v. sl = Val v \<and> 0 < v)) \<and> (tp = NaN \<or> (\<exists>v. tp = Val v \<and> 0 < v)))
   \<and> ((missing_or_nonpositive (stop_loss sig) \<or> missing_or_nonpositive (take_profit sig))
        \<and> (fallback_atr = None \<or> (\<exists>a. fallback_atr = Some a \<and> a \<le> 0))
      \<longrightarrow> calls (process_signal st env symbol strat_key sig fallback_atr) = []
          \<and> status (process_signal st env symbol strat_key sig fallback_atr) = SkippedNoSlTp)"
proof (intro conjI ballI allI impI)
  fix c s d lots sl tp cm
  assume c: "c \<in> set (calls (process_signal st env symbol strat_key sig fallback_atr))"
    and o: "c = OpenPosition s d lots sl tp cm"
  obtain st' cs entry r
    where p: "signal_pipeline st env symbol strat_key sig fallback_atr = (st', cs, entry, r)"
    by (cases "signal_pipeline st env symbol strat_key sig fallback_atr") auto
  from process_signal_calls[OF p c] o have "OpenPosition s d lots sl tp cm \<in> set cs" by auto
  from signal_pipeline_open_guarded[OF p this]
  show "sl = NaN \<or> (\<exists>v. sl = Val v \<and> 0 < v)" "tp = NaN \<or> (\<exists>v. tp = Val v \<and> 0 < v)"
    by (cases sl; cases tp; simp add: le_zero_def)+
next
  assume a: "(missing_or_nonpositive (stop_loss sig) \<or> missing_or_nonpositive (take_profit sig))
        \<and> (fallback_atr = None \<or> (\<exists>a. fallback_atr = Some a \<and> a \<le> 0))"
  then have "enforce_sl_tp sig fallback_atr (sym_cfg_of symbol) = None"
    by (auto simp: enforce_sl_tp_def Let_def)
  then have "signal_pipeline st env symbol strat_key sig fallback_atr
               = (st, [], Some SkippedNoSlTp, None)"
    by (simp add: signal_pipeline_def)
  then show "calls (process_signal st env symbol strat_key sig fallback_atr) = []"
    "status (process_signal st env symbol strat_key sig fallback_atr) = SkippedNoSlTp"
    by (simp_all add: process_signal_def)
qed

lemma signal_pipeline_rejected:
  assumes "risk_answer env = Inr rc" "\<not> approved rc"
    and "signal_pipeline st env symbol k sig fa = (st', cs, entry, r)"
  shows "(\<forall>s d l sl tp cm. OpenPosition s d l sl tp cm \<notin> set cs)
       \<and> (\<forall>s d dist. PreTradeCheck s d dist \<in> set cs \<longrightarrow>
            Publish ''TRADE_REJECTED'' (TradeRejected k (sig_symbol sig) (rc_reason rc)) \<in> set cs)
       \<and> st' = st"
  using assms
  by (auto simp: signal_pipeline_def Let_def split: option.splits if_splits prod.splits)

text \<open>
  Claim C4. When \<^verbatim>\<open>pre_trade_check\<close> answers with approved = false, no call of
  \<^verbatim>\<open>open_position\<close> is made for the signal, and if the risk gate was called for the
  signal then a \<^verbatim>\<open>TRADE_REJECTED\<close> event that carries the reason of the risk check is
  published.
\<close>

theorem rejected_never_submitted:
  assumes "risk_answer env = Inr rc" and "\<not> approved rc"
  shows "(\<forall>c \<in> set (calls (process_signal st env symbol strat_key sig fallback_atr)).
            \<forall>s d lots sl tp cm. c \<noteq> OpenPosition s d lots sl tp cm)
       \<and> (\<forall>s d dist.
            PreTradeCheck s d dist
              \<in> set (calls (process_signal st env symbol strat_key sig fallback_atr))
            \<longrightarrow> Publish ''TRADE_REJECTED''
                   (TradeRejected strat_key (sig_symbol sig) (rc_reason rc))
                 \<in> set (calls (process_signal st env symbol strat_key sig fallback_atr)))"
proof -
  obtain st' cs entry r
    where p: "signal_pipeline st env symbol strat_key sig fallback_atr = (st', cs, entry, r)"
    by (cases "signal_pipeline st env symbol strat_key sig fallback_atr") auto
  note rej = signal_pipeline_rejected[OF assms p]
  show ?thesis
  proof (intro conjI ballI allI impI)
    fix c s d lots sl tp cm
    assume "c \<in> set (calls (process_signal st env symbol strat_key sig fallback_atr))"
    from process_signal_calls[OF p this] rej
    show "c \<noteq> OpenPosition s d lots sl tp cm" by auto
  next
    fix s d dist
    assume "PreTradeCheck s d dist
              \<in> set (calls (process_signal st env symbol strat_key sig fallback_atr))"
    from process_signal_calls[OF p this] have "PreTradeCheck s d dist \<in> set cs" by auto
    with rej have "Publish ''TRADE_REJECTED''
                     (TradeRejected strat_key (sig_symbol sig) (rc_reason rc)) \<in> set cs"
      by blast
    with process_signal_calls_prefix[OF p]
    show "Publish ''TRADE_REJECTED'' (TradeRejected strat_key (sig_symbol sig) (rc_reason rc))
            \<in> set (calls (process_signal st env symbol strat_key sig fallback_atr))" by blast
  qed
qed

theorem rejected_never_submitted_witness:
  "risk_answer rejecting_env =
     Inr \<lparr>approved = False, rc_reason = ''kill switch active'', position_size = 0,
          risk_score = 1\<rparr>
   \<and> PreTradeCheck ''EURUSD'' BUY (Val (1/10))
        \<in> set (calls (process_signal initial_state rejecting_env ''EURUSD'' ''EURUSD_D''
                         full_signal None))
   \<and> Publish ''TRADE_REJECTED'' (TradeRejected ''EURUSD_D'' ''EURUSD'' ''kill switch active'')
        \<in> set (calls (process_signal initial_state rejecting_env ''EURUSD'' ''EURUSD_D''
                         full_signal None))
   \<and> OpenPosition ''EURUSD'' BUY 0 (Val 1) (Val (6/5)) ''JSR_EURUSD_D''
        \<notin> set (calls (process_signal initial_state rejecting_env ''EURUSD'' ''EURUSD_D''
                         full_signal None))"
proof -
  have r: "risk_answer rejecting_env =
     Inr \<lparr>approved = False, rc_reason = ''kill switch active'', position_size = 0,
          risk_score = 1\<rparr>"
    by (simp add: rejecting_env_def approving_env_def)
  have n: "\<not> approved \<lparr>approved = False, rc_reason = ''kill switch active'',
                        position_size = 0, risk_score = 1\<rparr>"
    by simp
  have sy: "sig_symbol full_signal = ''EURUSD''"
    by (simp add: full_signal_def bare_signal_def)
  from rejected_never_submitted[OF r n, of initial_state "''EURUSD''" "''EURUSD_D''"
         full_signal None]
  show ?thesis using r by (simp add: rejected_run sy)
qed

lemma submit_order_reached:
  "signal_pipeline st env symbol k sig fa = (st', cs, entry, r) \<Longrightarrow>
   OpenPosition s d l sl tp cm \<in> set cs \<Longrightarrow>
   \<exists>rc cs'. submit_order st env k sig rc sl tp = (st', cs', r)
      \<and> cs = PreTradeCheck (sig_symbol sig) (sig_direction sig) (abs_diff (entry_price sig) sl) # cs'"
  apply (auto simp: signal_pipeline_def Let_def
           split: option.splits if_splits sum.splits prod.splits)
     apply (frule (1) submit_order_calls, auto)+
  done

lemma submit_order_tracking:
  assumes "submit_order st env k sig rc sl tp = (st', cs, r)"
    and "order_answer env = Inr (Some ord)"
    and "publish_answer env ''TRADE_OPENED'' = Inr u"
  shows "st' = record_trade st env k sig ord \<and> r = None"
  using assms by (auto simp: submit_order_def Let_def)

text \<open>
  Claim C2, as amended. For an order that \<^verbatim>\<open>open_position\<close> placed and that carries a
  ticket other than zero, once the trade-opened event is published: when the recording
  to the database completes, the ticket is entered into \<^verbatim>\<open>_open_trades\<close> with the id of
  the recorded trade; when the recording raises, the error goes no further and the
  engine state, \<^verbatim>\<open>_open_trades\<close> included, is left as it was.
\<close>

theorem ticket_tracking_follows_persistence:
  assumes "OpenPosition s d lots sl tp cm
             \<in> set (calls (process_signal st env symbol strat_key sig fallback_atr))"
    and "order_answer env = Inr (Some ord)"
    and "ticket ord = Some t" and "t \<noteq> 0"
    and "publish_answer env ''TRADE_OPENED'' = Inr u"
  shows "(\<forall>db_id. db_answer env = Inr db_id \<longrightarrow>
            map_of (open_trades (state_after
                      (process_signal st env symbol strat_key sig fallback_atr))) t =
              Some \<lparr>trade_id = db_id, ti_strategy_code = strategy_code_of strat_key,
                    ti_symbol = sig_symbol sig, ti_direction = sig_direction sig\<rparr>)
       \<and> (\<forall>e. db_answer env = Inl e \<longrightarrow>
            state_after (process_signal st env symbol strat_key sig fallback_atr) = st
            \<and> propagated (process_signal st env symbol strat_key sig fallback_atr) = None)"
proof -
  obtain st' cs entry r
    where p: "signal_pipeline st env symbol strat_key sig fallback_atr = (st', cs, entry, r)"
    by (cases "signal_pipeline st env symbol strat_key sig fallback_atr") auto
  from process_signal_calls[OF p assms(1)] have "OpenPosition s d lots sl tp cm \<in> set cs"
    by auto
  from submit_order_reached[OF p this] obtain rc cs' where
    "submit_order st env strat_key sig rc sl tp = (st', cs', r)" by blast
  from submit_order_tracking[OF this assms(2) assms(5)]
  have st': "st' = record_trade st env strat_key sig ord" and r: "r = None" by auto
  have out: "state_after (process_signal st env symbol strat_key sig fallback_atr) = st'"
    "propagated (process_signal st env symbol strat_key sig fallback_atr) = None"
    using p r by (simp_all add: process_signal_def)
  show ?thesis
    using assms(3,4) by (auto simp: out st' record_trade_def update_conv')
qed

theorem ticket_tracking_follows_persistence_witness:
  "OpenPosition ''EURUSD'' BUY (1/50) (Val (4/5)) (Val (3/2)) ''JSR_EURUSD_D''
     \<in> set (calls (process_signal initial_state approving_env ''EURUSD'' ''EURUSD_D''
                      bare_signal (Some (1/5))))
   \<and> order_answer approving_env = Inr (Some \<lparr>ticket = Some 1001, price = Some (11/10)\<rparr>)
   \<and> db_answer approving_env = Inr 7
   \<and> map_of (open_trades (state_after
        (process_signal initial_state approving_env ''EURUSD'' ''EURUSD_D''
           bare_signal (Some (1/5))))) 1001 =
       Some \<lparr>trade_id = 7, ti_strategy_code = ''D'', ti_symbol = ''EURUSD'',
             ti_direction = BUY\<rparr>
   \<and> OpenPosition ''EURUSD'' BUY (1/50) (Val (4/5)) (Val (3/2)) ''JSR_EURUSD_D''
     \<in> set (calls (process_signal initial_state db_failing_env ''EURUSD'' ''EURUSD_D''
                      bare_signal (Some (1/5))))
   \<and> db_answer db_failing_env = Inl (CollaboratorError ''database'')
   \<and> state_after (process_signal initial_state db_failing_env ''EURUSD'' ''EURUSD_D''
                     bare_signal (Some (1/5))) = initial_state"
proof -
  let ?ord = "\<lparr>ticket = Some (1001::int), price = Some (11/10::real)\<rparr>"
  have o1: "OpenPosition ''EURUSD'' BUY (1/50) (Val (4/5)) (Val (3/2)) ''JSR_EURUSD_D''
     \<in> set (calls (process_signal initial_state approving_env ''EURUSD'' ''EURUSD_D''
                      bare_signal (Some (1/5))))"
    by (simp only: approving_run) simp
  have o2: "OpenPosition ''EURUSD'' BUY (1/50) (Val (4/5)) (Val (3/2)) ''JSR_EURUSD_D''
     \<in> set (calls (process_signal initial_state db_failing_env ''EURUSD'' ''EURUSD_D''
                      bare_signal (Some (1/5))))"
    by (simp only: db_failing_run) simp
  have a1: "order_answer approving_env = Inr (Some ?ord)"
    and a2: "order_answer db_failing_env = Inr (Some ?ord)"
    and p1: "publish_answer approving_env ''TRADE_OPENED'' = Inr ()"
    and p2: "publish_answer db_failing_env ''TRADE_OPENED'' = Inr ()"
    and d1: "db_answer approving_env = Inr 7"
    and d2: "db_answer db_failing_env = Inl (CollaboratorError ''database'')"
    by (simp_all add: approving_env_def db_failing_env_def)
  have t: "ticket ?ord = Some 1001" and nz: "(1001::int) \<noteq> 0" by simp_all
  have k: "strategy_code_of ''EURUSD_D'' = ''D''" by (simp add: strategy_code_of_def)
  have b: "sig_symbol bare_signal = ''EURUSD''" "sig_direction bare_signal = BUY"
    by (simp_all add: bare_signal_def)
  from ticket_tracking_follows_persistence[OF o1 a1 t nz p1]
       ticket_tracking_follows_persistence[OF o2 a2 t nz p2]
  show ?thesis using o1 o2 a1 d1 d2 by (simp add: k b)
qed

text \<open>
  Claim C2, as stated, fails: the order is placed and answered with ticket 1001, the
  recording to the database raises, and \<^verbatim>\<open>_open_trades\<close> does not hold the ticket
  afterwards.
\<close>

theorem ticket_untracked_when_persistence_fails:
  "order_answer db_failing_env = Inr (Some \<lparr>ticket = Some 1001, price = Some (11/10)\<rparr>)
   \<and> db_answer db_failing_env = Inl (CollaboratorError ''database'')
   \<and> OpenPosition ''EURUSD'' BUY (1/50) (Val (4/5)) (Val (3/2)) ''JSR_EURUSD_D''
        \<in> set (calls (process_signal initial_state db_failing_env ''EURUSD'' ''EURUSD_D''
                         bare_signal (Some (1/5))))
   \<and> map_of (open_trades (state_after
        (process_signal initial_state db_failing_env ''EURUSD'' ''EURUSD_D''
           bare_signal (Some (1/5))))) 1001 = None"
proof -
  have "order_answer db_failing_env = Inr (Some \<lparr>ticket = Some 1001, price = Some (11/10)\<rparr>)"
    and "db_answer db_failing_env = Inl (CollaboratorError ''database'')"
    by (simp_all add: db_failing_env_def approving_env_def)
  moreover have "open_trades initial_state = []" by (simp add: initial_state_def)
  ultimately show ?thesis by (simp only: db_failing_run) simp
qed

section \<open>Closure reconciliation: properties\<close>

lemma closures_of_append: "closures_of t (xs @ ys) = closures_of t xs @ closures_of t ys"
  by (simp add: closures_of_def)

lemma closures_of_process_closure:
  "closures_of t (process_closure st env t' info) =
     (if t = t' then [ClosureBegin t' (map fst (open_trades st))] else [])"
  by (auto simp: closures_of_def process_closure_def closure_values_def Let_def
           split: sum.splits option.splits prod.splits)

lemma map_of_keys: "k \<in> set (map fst al) \<Longrightarrow> \<exists>v. map_of al k = Some v"
  by (induction al) auto

lemma close_loop_effect:
  "distinct ts \<Longrightarrow> set ts \<subseteq> set (map fst (open_trades st)) \<Longrightarrow>
   close_loop st env ts = (st', cs) \<Longrightarrow>
     map fst (open_trades st') = filter (\<lambda>k. k \<notin> set ts) (map fst (open_trades st))
   \<and> last_candle_time st' = last_candle_time st
   \<and> (\<forall>t \<in> set ts. \<exists>held. closures_of t cs = [ClosureBegin t held] \<and> t \<notin> set held)
   \<and> (\<forall>t. t \<notin> set ts \<longrightarrow> closures_of t cs = [])"
proof (induction ts arbitrary: st st' cs)
  case Nil
  then show ?case by (simp add: closures_of_def)
next
  case (Cons tkt rest)
  from Cons.prems(2) obtain info where info: "map_of (open_trades st) tkt = Some info"
    using map_of_keys[of tkt "open_trades st"] by auto
  define st1 where "st1 = st\<lparr>open_trades := AList.delete tkt (open_trades st)\<rparr>"
  have keys1: "map fst (open_trades st1) = filter (\<lambda>k. k \<noteq> tkt) (map fst (open_trades st))"
    by (simp add: st1_def delete_keys removeAll_filter_not_eq) (metis)
  obtain st2 cs2 where rec: "close_loop st1 env rest = (st2, cs2)"
    by (cases "close_loop st1 env rest") auto
  have res: "st' = st2" "cs = process_closure st1 env tkt info @ cs2"
    using Cons.prems(3) info rec by (simp_all add: Let_def st1_def)
  have d: "distinct rest" and nin: "tkt \<notin> set rest" using Cons.prems(1) by auto
  have sub: "set rest \<subseteq> set (map fst (open_trades st1))"
    using Cons.prems(2) nin by (auto simp: keys1)
  note IH = Cons.IH[OF d sub rec]
  have k: "map fst (open_trades st') = filter (\<lambda>k. k \<notin> set (tkt # rest)) (map fst (open_trades st))"
    using IH by (simp add: res keys1 conj_commute)
  have l: "last_candle_time st' = last_candle_time st"
    using IH by (simp add: res st1_def)
  have held: "tkt \<notin> set (map fst (open_trades st1))" by (simp add: keys1)
  have a: "\<forall>t \<in> set (tkt # rest). \<exists>held. closures_of t cs = [ClosureBegin t held] \<and> t \<notin> set held"
  proof
    fix t assume t: "t \<in> set (tkt # rest)"
    show "\<exists>held. closures_of t cs = [ClosureBegin t held] \<and> t \<notin> set held"
    proof (cases "t = tkt")
      case True
      then have "closures_of t cs2 = []" using IH nin by blast
      then show ?thesis using True held
        by (simp add: res closures_of_append closures_of_process_closure)
    next
      case False
      then have "t \<in> set rest" using t by simp
      then show ?thesis using IH False
        by (simp add: res closures_of_append closures_of_process_closure)
    qed
  qed
  have b: "\<forall>t. t \<notin> set (tkt # rest) \<longrightarrow> closures_of t cs = []"
    using IH by (simp add: res closures_of_append closures_of_process_closure)
  from k l a b show ?case by blast
qed

lemma check_effect:
  assumes "distinct (map fst (open_trades st))" and "positions_answer env = Inr ps"
    and "check_closed_positions st env = (st', cs)"
  shows "map fst (open_trades st') = filter (\<lambda>t. Some t \<in> set ps) (map fst (open_trades st))
   \<and> (\<forall>t \<in> set (map fst (open_trades st)). Some t \<notin> set ps \<longrightarrow>
        (\<exists>held. closures_of t cs = [ClosureBegin t held] \<and> t \<notin> set held))
   \<and> (\<forall>t. t \<notin> set (map fst (open_trades st)) \<or> Some t \<in> set ps \<longrightarrow> closures_of t cs = [])"
proof (cases "open_trades st = []")
  case True
  then show ?thesis using assms(3) by (simp add: check_closed_positions_def closures_of_def)
next
  case False
  let ?ts = "filter (\<lambda>t. Some t \<notin> set ps) (map fst (open_trades st))"
  obtain st2 cs2 where cl: "close_loop st env ?ts = (st2, cs2)"
    by (cases "close_loop st env ?ts") auto
  have res: "st' = st2" "cs = GetOpenPositions # cs2"
    using assms(2,3) False cl by (simp_all add: check_closed_positions_def Let_def)
  have d: "distinct ?ts" using assms(1) by simp
  have sub: "set ?ts \<subseteq> set (map fst (open_trades st))" by auto
  note E = close_loop_effect[OF d sub cl]
  have c: "closures_of t cs = closures_of t cs2" for t
    by (simp add: res closures_of_def)
  have "map fst (open_trades st') = filter (\<lambda>t. Some t \<in> set ps) (map fst (open_trades st))"
    using E by (simp add: res) (rule filter_cong, auto)
  moreover have "\<forall>t \<in> set (map fst (open_trades st)). Some t \<notin> set ps \<longrightarrow>
        (\<exists>held. closures_of t cs = [ClosureBegin t held] \<and> t \<notin> set held)"
    using E by (simp add: c)
  moreover have "\<forall>t. t \<notin> set (map fst (open_trades st)) \<or> Some t \<in> set ps \<longrightarrow> closures_of t cs = []"
    using E by (auto simp: c)
  ultimately show ?thesis by blast
qed

lemma reconcile_times_quiet:
  assumes "positions_answer env = Inr ps"
  shows "distinct (map fst (open_trades st)) \<Longrightarrow> t \<notin> set (map fst (open_trades st)) \<Longrightarrow>
         closures_of t (snd (reconcile_times n st env)) = []
         \<and> t \<notin> set (map fst (open_trades (fst (reconcile_times n st env))))"
proof (induction n arbitrary: st)
  case 0
  then show ?case by (simp add: closures_of_def)
next
  case (Suc n)
  obtain st1 cs1 where c: "check_closed_positions st env = (st1, cs1)"
    by (cases "check_closed_positions st env") auto
  note E = check_effect[OF Suc.prems(1) assms c]
  have d1: "distinct (map fst (open_trades st1))" using E Suc.prems(1) by simp
  have n1: "t \<notin> set (map fst (open_trades st1))" using E Suc.prems(2) by simp
  have q: "closures_of t cs1 = []" using E Suc.prems(2) by blast
  from Suc.IH[OF d1 n1] q show ?case
    by (cases "reconcile_times n st1 env") (simp add: c closures_of_append)
qed

text \<open>
  Claim C6. When the broker reports its open positions and a ticket of \<^verbatim>\<open>_open_trades\<close>
  is not among them, the reconciliation removes the ticket from the record, starts the
  processing of its closure in a state in which the record no longer holds the ticket,
  and processes the closure exactly once, however often the reconciliation is repeated
  against the same answer of the broker.
\<close>

theorem closure_processed_once:
  assumes "distinct (map fst (open_trades st))"
    and "positions_answer env = Inr ps"
    and "t \<in> set (map fst (open_trades st))"
    and "Some t \<notin> set ps"
  shows "t \<notin> set (map fst (open_trades (fst (check_closed_positions st env))))
       \<and> (\<exists>held. closures_of t (snd (check_closed_positions st env)) = [ClosureBegin t held]
                \<and> t \<notin> set held)
       \<and> length (closures_of t (snd (reconcile_times (Suc n) st env))) = 1"
proof -
  obtain st1 cs1 where c: "check_closed_positions st env = (st1, cs1)"
    by (cases "check_closed_positions st env") auto
  note E = check_effect[OF assms(1,2) c]
  have d1: "distinct (map fst (open_trades st1))" using E assms(1) by simp
  have n1: "t \<notin> set (map fst (open_trades st1))" using E assms(4) by simp
  from E assms(3,4) obtain held where h: "closures_of t cs1 = [ClosureBegin t held]" "t \<notin> set held"
    by blast
  from reconcile_times_quiet[OF assms(2) d1 n1, of n]
  have "closures_of t (snd (reconcile_times n st1 env)) = []" by simp
  then have "length (closures_of t (snd (reconcile_times (Suc n) st env))) = 1"
    using h by (cases "reconcile_times n st1 env") (simp add: c closures_of_append)
  with n1 h show ?thesis by (simp add: c)
qed

lemma tracking_state_keys: "map fst (open_trades tracking_state) = [1001, 1002]"
  by (simp add: tracking_state_def)

theorem closure_processed_once_witness:
  "distinct (map fst (open_trades tracking_state))
   \<and> positions_answer (broker_env [Some 1002]) = Inr [Some 1002]
   \<and> 1001 \<in> set (map fst (open_trades tracking_state))
   \<and> Some 1001 \<notin> set [Some (1002::int)]
   \<and> 1001 \<notin> set (map fst (open_trades
                 (fst (check_closed_positions tracking_state (broker_env [Some 1002])))))
   \<and> (\<exists>held. closures_of 1001
                 (snd (check_closed_positions tracking_state (broker_env [Some 1002])))
               = [ClosureBegin 1001 held] \<and> 1001 \<notin> set held)
   \<and> length (closures_of 1001
               (snd (reconcile_times (Suc 2) tracking_state (broker_env [Some 1002])))) = 1"
proof -
  have d: "distinct (map fst (open_trades tracking_state))"
    by (simp add: tracking_state_keys)
  have p: "positions_answer (broker_env [Some 1002]) = Inr [Some 1002]"
    by (simp add: broker_env_def)
  have m: "1001 \<in> set (map fst (open_trades tracking_state))"
    by (simp add: tracking_state_keys)
  have a: "Some 1001 \<notin> set [Some (1002::int)]" by simp
  from closure_processed_once[OF d p m a, of 2] d p m a show ?thesis by blast
qed

lemma close_loop_origin:
  "c \<in> set (snd (close_loop st env ts)) \<Longrightarrow>
   \<exists>st1 t info. map_of (open_trades st) t = Some info \<and> c \<in> set (process_closure st1 env t info)"
proof (induction ts arbitrary: st)
  case Nil
  then show ?case by simp
next
  case (Cons tkt rest)
  show ?case
  proof (cases "map_of (open_trades st) tkt")
    case None
    with Cons.prems show ?thesis by simp
  next
    case (Some info)
    define st1 where "st1 = st\<lparr>open_trades := AList.delete tkt (open_trades st)\<rparr>"
    from Cons.prems Some
    consider "c \<in> set (process_closure st1 env tkt info)" | "c \<in> set (snd (close_loop st1 env rest))"
      by (auto simp: Let_def st1_def split: prod.splits)
    then show ?thesis
    proof cases
      case 1
      with Some show ?thesis by blast
    next
      case 2
      from Cons.IH[OF 2] obtain st2 t info'
        where m: "map_of (open_trades st1) t = Some info'" and c: "c \<in> set (process_closure st2 env t info')"
        by blast
      from m have "map_of (open_trades st) t = Some info'"
        by (auto simp: st1_def delete_conv' split: if_splits)
      with c show ?thesis by blast
    qed
  qed
qed

lemma check_origin:
  assumes "c \<in> set (snd (check_closed_positions st env))" and "c \<noteq> GetOpenPositions"
  shows "\<exists>st1 t info. map_of (open_trades st) t = Some info \<and> c \<in> set (process_closure st1 env t info)"
proof (cases "positions_answer env")
  case (Inl e)
  with assms show ?thesis by (simp add: check_closed_positions_def split: if_splits)
next
  case (Inr ps)
  let ?ts = "filter (\<lambda>t. Some t \<notin> set ps) (map fst (open_trades st))"
  from assms Inr have "c \<in> set (snd (close_loop st env ?ts))"
    by (cases "close_loop st env ?ts")
       (auto simp: check_closed_positions_def Let_def split: if_splits)
  then show ?thesis by (rule close_loop_origin)
qed

lemma closure_values_calls:
  "closure_values env tkt info = (vals, cs) \<Longrightarrow> c \<in> set cs \<Longrightarrow> c = GetTick (ti_symbol info)"
  by (auto simp: closure_values_def split: option.splits sum.splits)

text \<open>
  Claim C9. Every call that the reconciliation makes after asking the broker belongs to
  the processing of the closure of a ticket of \<^verbatim>\<open>_open_trades\<close>. In such a processing,
  when the history lookup yields no position data and the tick of the symbol is
  available, the exit price passed on is the bid of the tick for a BUY trade and the ask
  for a SELL trade (0.0 for a tick without that key); and a notification of the brain
  carries the exit price, profit, commission and swap of the closure as net profit =
  profit - commission - swap, with the flag won true exactly when the net profit is
  strictly positive.
\<close>

theorem closure_exit_price_and_net_profit:
  "(\<forall>c \<in> set (snd (check_closed_positions st env)). c \<noteq> GetOpenPositions \<longrightarrow>
      (\<exists>st1 t info. map_of (open_trades st) t = Some info
          \<and> c \<in> set (process_closure st1 env t info)))
   \<and> (\<forall>tid ex pr co sw tk.
        CloseTrade tid ex pr co sw \<in> set (process_closure st1 env tkt info)
        \<and> history_answer env tkt = None \<and> tick_answer env (ti_symbol info) = Inr tk
        \<longrightarrow> ex = (if ti_direction info = BUY then get_or_zero (bid tk) else get_or_zero (ask tk)))
   \<and> (\<forall>strat sy d entry ex net won t.
        BrainTradeClosed strat sy d entry ex net won t \<in> set (process_closure st1 env tkt info)
        \<longrightarrow> (\<exists>pr co sw. CloseTrade (trade_id info) ex pr co sw
                            \<in> set (process_closure st1 env tkt info)
              \<and> fst (closure_values env tkt info) = (ex, pr, co, sw)
              \<and> net = pr - co - sw \<and> won = (0 < net) \<and> t = tkt))"
proof (intro conjI ballI allI impI)
  fix c assume "c \<in> set (snd (check_closed_positions st env))" "c \<noteq> GetOpenPositions"
  then show "\<exists>st1 t info. map_of (open_trades st) t = Some info \<and> c \<in> set (process_closure st1 env t info)"
    by (rule check_origin)
next
  fix tid ex pr co sw tk
  assume "CloseTrade tid ex pr co sw \<in> set (process_closure st1 env tkt info)
        \<and> history_answer env tkt = None \<and> tick_answer env (ti_symbol info) = Inr tk"
  then show "ex = (if ti_direction info = BUY then get_or_zero (bid tk) else get_or_zero (ask tk))"
    by (auto simp: process_closure_def closure_values_def Let_def
             split: sum.splits option.splits prod.splits if_splits)
next
  fix strat sy d entry ex net won t
  assume "BrainTradeClosed strat sy d entry ex net won t \<in> set (process_closure st1 env tkt info)"
  then show "\<exists>pr co sw. CloseTrade (trade_id info) ex pr co sw \<in> set (process_closure st1 env tkt info)
              \<and> fst (closure_values env tkt info) = (ex, pr, co, sw)
              \<and> net = pr - co - sw \<and> won = (0 < net) \<and> t = tkt"
    by (cases "closure_values env tkt info")
       (auto simp: process_closure_def Let_def split: sum.splits option.splits prod.splits
             dest: closure_values_calls)
qed

lemma tick_closure_buy:
  "process_closure st (broker_env ps) 1001 (tracked_trade BUY) =
     [ClosureBegin 1001 (map fst (open_trades st)), HistoryDeal 1001, SelectTrade 7,
      GetTick ''EURUSD'', CloseTrade 7 (6/5) 0 0 0, SelectTrade 7, UpdatePerformance ''D'' 7,
      BrainTradeClosed ''EURUSD_D'' ''EURUSD'' BUY (11/10) (6/5) 0 False 1001]"
  by (simp add: process_closure_def closure_values_def broker_env_def tracked_trade_def
        get_or_zero_def)

lemma tick_closure_sell:
  "process_closure st (broker_env ps) 1002 (tracked_trade SELL) =
     [ClosureBegin 1002 (map fst (open_trades st)), HistoryDeal 1002, SelectTrade 7,
      GetTick ''EURUSD'', CloseTrade 7 (13/10) 0 0 0, SelectTrade 7, UpdatePerformance ''D'' 7,
      BrainTradeClosed ''EURUSD_D'' ''EURUSD'' SELL (11/10) (13/10) 0 False 1002]"
  by (simp add: process_closure_def closure_values_def broker_env_def tracked_trade_def
        get_or_zero_def)

lemma history_closure_buy:
  "process_closure st (history_env ps) 1001 (tracked_trade BUY) =
     [ClosureBegin 1001 (map fst (open_trades st)), HistoryDeal 1001, SelectTrade 7,
      CloseTrade 7 (5/4) 10 1 2, SelectTrade 7, UpdatePerformance ''D'' 7,
      BrainTradeClosed ''EURUSD_D'' ''EURUSD'' BUY (11/10) (5/4) 7 True 1001]"
  by (simp add: process_closure_def closure_values_def history_env_def broker_env_def
        tracked_trade_def get_or_zero_def)

theorem closure_exit_price_and_net_profit_witness:
  "history_answer (broker_env []) 1001 = None
   \<and> tick_answer (broker_env []) ''EURUSD'' = Inr \<lparr>bid = Some (6/5), ask = Some (13/10)\<rparr>
   \<and> CloseTrade 7 (6/5) 0 0 0
        \<in> set (process_closure initial_state (broker_env []) 1001 (tracked_trade BUY))
   \<and> CloseTrade 7 (13/10) 0 0 0
        \<in> set (process_closure initial_state (broker_env []) 1002 (tracked_trade SELL))
   \<and> BrainTradeClosed ''EURUSD_D'' ''EURUSD'' BUY (11/10) (5/4) 7 True 1001
        \<in> set (process_closure initial_state (history_env []) 1001 (tracked_trade BUY))
   \<and> fst (closure_values (history_env []) 1001 (tracked_trade BUY)) = (5/4, 10, 1, 2)
   \<and> (7::real) = 10 - 1 - 2 \<and> True = (0 < (7::real))"
proof -
  have h: "history_answer (broker_env []) 1001 = None"
    and t: "tick_answer (broker_env []) ''EURUSD'' = Inr \<lparr>bid = Some (6/5), ask = Some (13/10)\<rparr>"
    by (simp_all add: broker_env_def)
  have c1: "CloseTrade 7 (6/5) 0 0 0
        \<in> set (process_closure initial_state (broker_env []) 1001 (tracked_trade BUY))"
    by (simp only: tick_closure_buy) simp
  have c2: "CloseTrade 7 (13/10) 0 0 0
        \<in> set (process_closure initial_state (broker_env []) 1002 (tracked_trade SELL))"
    by (simp only: tick_closure_sell) simp
  have b: "BrainTradeClosed ''EURUSD_D'' ''EURUSD'' BUY (11/10) (5/4) 7 True 1001
        \<in> set (process_closure initial_state (history_env []) 1001 (tracked_trade BUY))"
    by (simp only: history_closure_buy) simp
  have v: "fst (closure_values (history_env []) 1001 (tracked_trade BUY)) = (5/4, 10, 1, 2)"
    by (simp add: closure_values_def history_env_def broker_env_def get_or_zero_def)
  note T1 = closure_exit_price_and_net_profit[of tracking_state "broker_env []" initial_state 1001
         "tracked_trade BUY"]
  note T2 = closure_exit_price_and_net_profit[of tracking_state "history_env []" initial_state 1001
         "tracked_trade BUY"]
  have s: "ti_symbol (tracked_trade BUY) = ''EURUSD''" by (simp add: tracked_trade_def)
  from conjunct1[OF conjunct2[OF T1]] c1 h t s
  have x: "(6/5::real) =
      (if ti_direction (tracked_trade BUY) = BUY
       then get_or_zero (bid \<lparr>bid = Some (6/5), ask = Some (13/10)\<rparr>)
       else get_or_zero (ask \<lparr>bid = Some (6/5), ask = Some (13/10)\<rparr>))"
    by metis
  from conjunct2[OF conjunct2[OF T2]] b
  have y: "\<exists>pr co sw. CloseTrade (trade_id (tracked_trade BUY)) (5/4) pr co sw
              \<in> set (process_closure initial_state (history_env []) 1001 (tracked_trade BUY))
            \<and> fst (closure_values (history_env []) 1001 (tracked_trade BUY)) = (5/4, pr, co, sw)
            \<and> (7::real) = pr - co - sw \<and> True = (0 < (7::real)) \<and> (1001::int) = 1001"
    by blast
  from x y h t c1 c2 b v show ?thesis by simp
qed

section \<open>Strategy D: properties\<close>

lemma generate_signal_of_evaluation:
  "evaluate_triggers cfg ind df = Inr (Some ev) \<Longrightarrow> generate_signal cfg ind df = Inr (decide ev)"
  by (simp add: generate_signal_def generate_signal_body_def then_res_def)

lemma signal_has_evaluation:
  "generate_signal cfg ind df = Inr (Some s) \<Longrightarrow>
   \<exists>ev. evaluate_triggers cfg ind df = Inr (Some ev) \<and> decide ev = Some s"
  by (auto simp: generate_signal_def generate_signal_body_def then_res_def
           split: sum.splits option.splits)

lemma build_signal_direction:
  "build_signal d rs ev = Some s \<Longrightarrow> direction s = d \<and> reason s = rs"
  by (auto simp: build_signal_def Let_def split: if_splits)

lemma evaluate_triggers_kinds:
  "evaluate_triggers cfg ind df = Inr (Some ev) \<Longrightarrow>
   set (buy_signals ev) \<subseteq> {BelowLowerBand, RsiOversold, BurstBullish}
   \<and> set (sell_signals ev) \<subseteq> {AboveUpperBand, RsiOverbought, BurstBearish}"
  by (auto simp: evaluate_triggers_def then_res_def Let_def Option.bind_eq_Some_conv
           split: if_splits sum.splits prod.splits)

lemma column_present:
  "name \<in> set (columns df) \<Longrightarrow> column df name sel = Inr (map sel (rows df))"
  by (simp add: column_def)

lemma iloc_last_map:
  "xs \<noteq> [] \<Longrightarrow> iloc_last (map f xs) = Inr (f (last xs))"
  by (simp add: iloc_last_def last_map)

lemma flat_cols:
  "column (flat_window n c) ''close'' close = Inr (replicate n c)"
  "column (flat_window n c) ''open'' open_price = Inr (replicate n c)"
  "column (flat_window n c) ''high'' high = Inr (replicate n c)"
  "column (flat_window n c) ''low'' low = Inr (replicate n c)"
  by (simp_all add: column_def flat_window_def ohlcv_def mk_candle_def)

lemma flat_len: "len_df (flat_window n c) = int n"
  by (simp add: len_df_def flat_window_def)

lemma flat_momentum:
  "momentum_burst n (replicate m c) (replicate m c) c c c c = (False, False)"
  by (simp add: momentum_burst_def Let_def)

lemma flat_evaluate:
  "evaluate_triggers default_config (fixed_indicators (Some ub) (Some mb) (Some lb) (Some r) (Some a))
     (flat_window 25 c) =
   Inr (Some \<lparr>buy_signals = (if c < lb then [BelowLowerBand] else []) @ (if r < 30 then [RsiOversold] else []),
        sell_signals = (if c > ub then [AboveUpperBand] else []) @ (if r > 70 then [RsiOverbought] else []),
        latest_close = c, latest_rsi = r, latest_atr = a\<rparr>)"
  by (simp add: evaluate_triggers_def flat_cols flat_len min_data_def default_config_def
        then_res_def fixed_indicators_def iloc_last_def flat_momentum Let_def)

text \<open>
  Claim C7. When \<^verbatim>\<open>generate_signal\<close> reaches the decision of line 226 with at least
  one BUY trigger and at least one SELL trigger, whatever their kinds (band, RSI or
  momentum burst), it returns \<^verbatim>\<open>None\<close>; and a signal that it returns has the direction
  of the only side that has a trigger.
\<close>

theorem conflicting_triggers_give_no_signal:
  "(\<forall>ev. evaluate_triggers cfg ind df = Inr (Some ev)
          \<and> buy_signals ev \<noteq> [] \<and> sell_signals ev \<noteq> []
        \<longrightarrow> generate_signal cfg ind df = Inr None)
   \<and> (\<forall>s. generate_signal cfg ind df = Inr (Some s) \<longrightarrow>
         (\<exists>ev. evaluate_triggers cfg ind df = Inr (Some ev)
            \<and> set (buy_signals ev) \<subseteq> {BelowLowerBand, RsiOversold, BurstBullish}
            \<and> set (sell_signals ev) \<subseteq> {AboveUpperBand, RsiOverbought, BurstBearish}
            \<and> ((direction s = BUY \<and> buy_signals ev \<noteq> [] \<and> sell_signals ev = [])
               \<or> (direction s = SELL \<and> sell_signals ev \<noteq> [] \<and> buy_signals ev = []))))"
proof (intro conjI allI impI)
  fix ev
  assume "evaluate_triggers cfg ind df = Inr (Some ev)
          \<and> buy_signals ev \<noteq> [] \<and> sell_signals ev \<noteq> []"
  then show "generate_signal cfg ind df = Inr None"
    by (simp add: generate_signal_of_evaluation decide_def)
next
  fix s
  assume g: "generate_signal cfg ind df = Inr (Some s)"
  from signal_has_evaluation[OF g] obtain ev
    where e: "evaluate_triggers cfg ind df = Inr (Some ev)" and d: "decide ev = Some s"
    by blast
  from d have "(direction s = BUY \<and> buy_signals ev \<noteq> [] \<and> sell_signals ev = [])
             \<or> (direction s = SELL \<and> sell_signals ev \<noteq> [] \<and> buy_signals ev = [])"
    by (auto simp: decide_def dest: build_signal_direction split: if_splits)
  with e evaluate_triggers_kinds[OF e]
  show "\<exists>ev. evaluate_triggers cfg ind df = Inr (Some ev)
            \<and> set (buy_signals ev) \<subseteq> {BelowLowerBand, RsiOversold, BurstBullish}
            \<and> set (sell_signals ev) \<subseteq> {AboveUpperBand, RsiOverbought, BurstBearish}
            \<and> ((direction s = BUY \<and> buy_signals ev \<noteq> [] \<and> sell_signals ev = [])
               \<or> (direction s = SELL \<and> sell_signals ev \<noteq> [] \<and> buy_signals ev = []))"
    by blast
qed

theorem conflicting_triggers_give_no_signal_witness:
  "evaluate_triggers default_config
     (fixed_indicators (Some 120) (Some 110) (Some 105) (Some 80) (Some 2)) (flat_window 25 100) =
     Inr (Some \<lparr>buy_signals = [BelowLowerBand], sell_signals = [RsiOverbought],
                latest_close = 100, latest_rsi = 80, latest_atr = 2\<rparr>)
   \<and> generate_signal default_config
        (fixed_indicators (Some 120) (Some 110) (Some 105) (Some 80) (Some 2)) (flat_window 25 100)
      = Inr None
   \<and> evaluate_triggers default_config
        (fixed_indicators (Some 120) (Some 110) (Some 105) (Some 20) (Some 2)) (flat_window 25 100) =
     Inr (Some \<lparr>buy_signals = [BelowLowerBand, RsiOversold], sell_signals = [],
                latest_close = 100, latest_rsi = 20, latest_atr = 2\<rparr>)
   \<and> generate_signal default_config
        (fixed_indicators (Some 120) (Some 110) (Some 105) (Some 20) (Some 2)) (flat_window 25 100)
      = Inr (Some \<lparr>direction = BUY, confidence = 3/5, sl_price = 98, tp_price = 103,
                   reason = [BelowLowerBand, RsiOversold], strategy_code = ''D''\<rparr>)"
proof -
  let ?conflict = "\<lparr>buy_signals = [BelowLowerBand], sell_signals = [RsiOverbought],
                latest_close = 100, latest_rsi = 80, latest_atr = 2\<rparr>"
  let ?buy = "\<lparr>buy_signals = [BelowLowerBand, RsiOversold], sell_signals = [],
                latest_close = 100, latest_rsi = 20, latest_atr = 2\<rparr>"
  have e1: "evaluate_triggers default_config
     (fixed_indicators (Some 120) (Some 110) (Some 105) (Some 80) (Some 2)) (flat_window 25 100) =
     Inr (Some ?conflict)"
    by (simp add: flat_evaluate)
  have e2: "evaluate_triggers default_config
     (fixed_indicators (Some 120) (Some 110) (Some 105) (Some 20) (Some 2)) (flat_window 25 100) =
     Inr (Some ?buy)"
    by (simp add: flat_evaluate)
  have g2: "generate_signal default_config
        (fixed_indicators (Some 120) (Some 110) (Some 105) (Some 20) (Some 2)) (flat_window 25 100)
      = Inr (Some \<lparr>direction = BUY, confidence = 3/5, sl_price = 98, tp_price = 103,
                   reason = [BelowLowerBand, RsiOversold], strategy_code = ''D''\<rparr>)"
    by (simp add: generate_signal_of_evaluation[OF e2] decide_def build_signal_def)
  let ?i1 = "fixed_indicators (Some 120) (Some 110) (Some 105) (Some 80) (Some 2)"
  let ?i2 = "fixed_indicators (Some 120) (Some 110) (Some 105) (Some 20) (Some 2)"
  have c: "evaluate_triggers default_config ?i1 (flat_window 25 100) = Inr (Some ?conflict)
          \<and> buy_signals ?conflict \<noteq> [] \<and> sell_signals ?conflict \<noteq> []"
    using e1 by simp
  from conjunct1[OF conflicting_triggers_give_no_signal[of default_config ?i1 "flat_window 25 100"]] c
  have g1: "generate_signal default_config ?i1 (flat_window 25 100) = Inr None"
    by blast
  from conjunct2[OF conflicting_triggers_give_no_signal[of default_config ?i2 "flat_window 25 100"]] g2
  have "\<exists>ev. evaluate_triggers default_config ?i2 (flat_window 25 100) = Inr (Some ev)" by blast
  with e1 e2 g1 g2 show ?thesis by simp
qed

text \<open>
  Claim C8. With the default configuration, a window of 25 bars that carries the four
  price columns, latest indicator values that are all defined, a latest RSI of 45, a
  latest close below the lower band and no SELL trigger (the close is not above the upper
  band and there is no bearish burst), and a stop and a target that come out strictly
  positive: \<^verbatim>\<open>generate_signal\<close> returns a BUY signal with confidence
  min(|45 - 50| / 50, 1.0) = 0.1, stop-loss = close - 1.0 * ATR and take-profit =
  close + 1.5 * ATR.
\<close>

theorem default_buy_scenario:
  assumes len: "length (rows df) = 25"
    and cols: "''close'' \<in> set (columns df)" "''high'' \<in> set (columns df)"
              "''low'' \<in> set (columns df)" "''open'' \<in> set (columns df)"
    and bb: "bollinger_bands ind (map close (rows df)) (bb_period default_config)
               (bb_std default_config) = Inr (upper_band, middle_band, lower_band)"
    and rs: "rsi ind (map close (rows df)) (rsi_period default_config) = Inr rsi_values"
    and at: "atr ind (map high (rows df)) (map low (rows df)) (map close (rows df))
               (atr_period default_config) = Inr atr_values"
    and latest: "iloc_last upper_band = Inr (Some ub)" "iloc_last middle_band = Inr (Some mb)"
                "iloc_last lower_band = Inr (Some lb)" "iloc_last rsi_values = Inr (Some 45)"
                "iloc_last atr_values = Inr (Some a)"
    and below: "close (last (rows df)) < lb"
    and not_above: "\<not> close (last (rows df)) > ub"
    and no_burst_sell:
      "\<not> snd (momentum_burst 25 (map close (rows df)) (map open_price (rows df))
                (close (last (rows df))) (open_price (last (rows df)))
                (high (last (rows df))) (low (last (rows df))))"
    and positive: "0 < close (last (rows df)) - 1.0 * a" "0 < close (last (rows df)) + 1.5 * a"
  shows "\<exists>s. generate_signal default_config ind df = Inr (Some s)
           \<and> direction s = BUY
           \<and> confidence s = min (\<bar>45 - 50\<bar> / 50) 1.0
           \<and> confidence s = 0.1
           \<and> sl_price s = close (last (rows df)) - 1.0 * a
           \<and> tp_price s = close (last (rows df)) + 1.5 * a"
proof -
  have ne: "rows df \<noteq> []" using len by auto
  let ?m = "momentum_burst 25 (map close (rows df)) (map open_price (rows df))
                (close (last (rows df))) (open_price (last (rows df)))
                (high (last (rows df))) (low (last (rows df)))"
  define ev where "ev =
     \<lparr>buy_signals = [BelowLowerBand] @ (if fst ?m then [BurstBullish] else []),
      sell_signals = [],
      latest_close = close (last (rows df)), latest_rsi = 45, latest_atr = a\<rparr>"
  have md: "\<not> (25::int) < min_data default_config"
    by (simp add: min_data_def default_config_def)
  have thr: "\<not> (45::real) < rsi_oversold default_config" "\<not> (45::real) > rsi_overbought default_config"
    by (simp_all add: default_config_def)
  have ld: "len_df df = 25" by (simp add: len_df_def len)
  have "evaluate_triggers default_config ind df = Inr (Some ev)"
    unfolding evaluate_triggers_def
    by (simp only: md if_False column_present cols then_res_def sum.case bb rs at prod.case
          iloc_last_map[OF ne] latest Option.bind.simps Let_def thr below not_above no_burst_sell ld)
       (simp add: ev_def)
  then have g: "generate_signal default_config ind df = Inr (decide ev)"
    by (rule generate_signal_of_evaluation)
  have "decide ev = build_signal BUY (buy_signals ev) ev"
    by (simp add: decide_def ev_def)
  moreover have "build_signal BUY (buy_signals ev) ev =
      Some \<lparr>direction = BUY, confidence = min (\<bar>45 - 50\<bar> / 50) 1,
            sl_price = close (last (rows df)) - a, tp_price = close (last (rows df)) + a * 1.5,
            reason = buy_signals ev, strategy_code = ''D''\<rparr>"
    using positive by (simp add: build_signal_def Let_def ev_def)
  ultimately show ?thesis using g by simp
qed

theorem default_buy_scenario_witness:
  "length (rows (flat_window 25 100)) = 25
   \<and> close (last (rows (flat_window 25 100))) < 105
   \<and> (\<exists>s. generate_signal default_config
              (fixed_indicators (Some 120) (Some 110) (Some 105) (Some 45) (Some 2))
              (flat_window 25 100) = Inr (Some s)
          \<and> direction s = BUY \<and> confidence s = 0.1 \<and> sl_price s = 98 \<and> tp_price s = 103)"
proof -
  let ?ind = "fixed_indicators (Some 120) (Some 110) (Some 105) (Some 45) (Some 2)"
  let ?df = "flat_window 25 100"
  have r: "rows ?df = replicate 25 (mk_candle 0 100 100 100 100)"
    and c: "columns ?df = ohlcv"
    by (simp_all add: flat_window_def)
  have l: "last (rows ?df) = mk_candle 0 100 100 100 100" by (simp add: r)
  have f: "close (mk_candle 0 100 100 100 100) = 100" "open_price (mk_candle 0 100 100 100 100) = 100"
    "high (mk_candle 0 100 100 100 100) = 100" "low (mk_candle 0 100 100 100 100) = 100"
    by (simp_all add: mk_candle_def)
  have len: "length (rows ?df) = 25" by (simp add: r)
  have cols: "''close'' \<in> set (columns ?df)" "''high'' \<in> set (columns ?df)"
             "''low'' \<in> set (columns ?df)" "''open'' \<in> set (columns ?df)"
    by (simp_all add: c ohlcv_def)
  have bb: "bollinger_bands ?ind (map close (rows ?df)) (bb_period default_config)
              (bb_std default_config) = Inr ([Some 120], [Some 110], [Some 105])"
    and rs: "rsi ?ind (map close (rows ?df)) (rsi_period default_config) = Inr [Some 45]"
    and at: "atr ?ind (map high (rows ?df)) (map low (rows ?df)) (map close (rows ?df))
              (atr_period default_config) = Inr [Some 2]"
    by (simp_all add: fixed_indicators_def)
  have latest: "iloc_last [Some (120::real)] = Inr (Some 120)"
    "iloc_last [Some (110::real)] = Inr (Some 110)"
    "iloc_last [Some (105::real)] = Inr (Some 105)"
    "iloc_last [Some (45::real)] = Inr (Some 45)"
    "iloc_last [Some (2::real)] = Inr (Some 2)"
    by (simp_all add: iloc_last_def)
  have below: "close (last (rows ?df)) < 105" by (simp add: l f)
  have not_above: "\<not> close (last (rows ?df)) > 120" by (simp add: l f)
  have no_burst: "\<not> snd (momentum_burst 25 (map close (rows ?df)) (map open_price (rows ?df))
                (close (last (rows ?df))) (open_price (last (rows ?df)))
                (high (last (rows ?df))) (low (last (rows ?df))))"
    by (simp add: l f momentum_burst_def Let_def)
  have positive: "0 < close (last (rows ?df)) - 1.0 * 2" "0 < close (last (rows ?df)) + 1.5 * 2"
    by (simp_all add: l f)
  from default_buy_scenario[OF len cols bb rs at latest below not_above no_burst positive]
  show ?thesis using len below by (simp add: l f)
qed

text \<open>
  Claim C10. \<^verbatim>\<open>generate_signal\<close> passes no exception to its caller: whatever the
  candle DataFrame, the configuration and the behaviour of the indicators, it returns a
  value; when its body raises (a missing column, a failing indicator, an empty series)
  the value is \<^verbatim>\<open>None\<close>, the same value as for no signal; otherwise it is what the
  body returned.
\<close>

theorem generate_signal_total:
  "(\<forall>e. generate_signal cfg ind df \<noteq> Inl e)
   \<and> (\<forall>e. generate_signal_body cfg ind df = Inl e \<longrightarrow> generate_signal cfg ind df = Inr None)
   \<and> (\<forall>r. generate_signal_body cfg ind df = Inr r \<longrightarrow> generate_signal cfg ind df = Inr r)"
  by (auto simp: generate_signal_def split: sum.splits)

lemma missing_close:
  "generate_signal_body default_config ind frame_without_close = Inl (KeyError ''close'')"
  by (simp add: generate_signal_body_def evaluate_triggers_def then_res_def column_def
       frame_without_close_def flat_window_def len_df_def min_data_def default_config_def)

theorem generate_signal_total_witness:
  "generate_signal_body default_config
     (fixed_indicators (Some 120) (Some 110) (Some 105) (Some 45) (Some 2)) frame_without_close
     = Inl (KeyError ''close'')
   \<and> generate_signal default_config
       (fixed_indicators (Some 120) (Some 110) (Some 105) (Some 45) (Some 2)) frame_without_close
     = Inr None"
  using generate_signal_total[of default_config
          "fixed_indicators (Some 120) (Some 110) (Some 105) (Some 45) (Some 2)"
          frame_without_close]
  by (simp add: missing_close)

end
